theory Spec2Isabelle
  imports Complex_Main "HOL-Library.Log_Nat" "HOL-Library.Code_Target_Numeral"
begin

section \<open>Python values and exceptions\<close>

text \<open>
  The dashboard (\<^verbatim>\<open>src/main/python/dashboard.py\<close>) is a set of Dash callbacks closed over
  the attributes of one \<^verbatim>\<open>Dashboard\<close> object. Each callback is modelled as a function from
  the attributes (the record \<open>session\<close>) and the callback's arguments to either a raised
  exception (\<open>Inl\<close>) or the updated attributes with the callback's outputs (\<open>Inr\<close>).
  An exception carries the text that \<^verbatim>\<open>str(e)\<close> gives.
\<close>

datatype pyerr =
    PreventUpdate
  | ImportError string
  | ValueError string
  | TypeError string
  | OverflowError string
  | AttributeError string
  | LibraryError string

fun str_exc :: "pyerr \<Rightarrow> string" where
  "str_exc PreventUpdate = ''''"
| "str_exc (ImportError m) = m"
| "str_exc (ValueError m) = m"
| "str_exc (TypeError m) = m"
| "str_exc (OverflowError m) = m"
| "str_exc (AttributeError m) = m"
| "str_exc (LibraryError m) = m"

text \<open>The two style dictionaries the callbacks return: \<^verbatim>\<open>{}\<close> and \<^verbatim>\<open>dict(display="none")\<close>.\<close>

datatype style = Show | Hide

text \<open>\<^verbatim>\<open>str(n)\<close> of a Python int, as \<^verbatim>\<open>"{}".format(n)\<close> prints it.\<close>

fun str_nat :: "nat \<Rightarrow> string" where
  "str_nat n = (if n < 10 then [''0123456789'' ! n]
                else str_nat (n div 10) @ [''0123456789'' ! (n mod 10)])"

definition str_int :: "int \<Rightarrow> string" where
  "str_int i = (if i < 0 then CHR ''-'' # str_nat (nat (- i)) else str_nat (nat i))"

text \<open>A name between single quotes, as Python's messages print a type or an attribute.\<close>

definition quoted :: "string \<Rightarrow> string" where
  "quoted s = CHR 0x27 # s @ [CHR 0x27]"

text \<open>
  A Python number: an int, or a float kept as the rational it denotes. The attribute
  \<^verbatim>\<open>progress\<close> is the int 0 after \<^verbatim>\<open>__init__\<close> and after a reset, and a float once
  \<^verbatim>\<open>compute_brain\<close> has added \<^verbatim>\<open>10.0\<close> and \<^verbatim>\<open>90.0 / nom\<close> to it.
\<close>

datatype pynum = PyInt int | PyFloat rat


section \<open>The session: the attributes of the Dashboard object\<close>

text \<open>
  \<open>'d\<close> is a \<^verbatim>\<open>nidmd.Decomposition\<close>, \<open>'a\<close> its atlas, \<open>'f\<close> a data frame and \<open>'v\<close> a
  numeric series; the dashboard never looks inside them.
\<close>

record ('d, 'a, 'f, 'v) session =
  dcp1 :: "'d option"
  dcp2 :: "'d option"
  match_group :: "'d option"
  match_df :: "'f option"
  match_x :: "'v option"
  match_y :: "'v option"
  atlas :: "'a option"
  progress :: pynum
  valid :: bool
  imag :: bool

text \<open>The attribute values set by \<^verbatim>\<open>__init__\<close>.\<close>

definition init_session :: "('d, 'a, 'f, 'v) session" where
  "init_session = \<lparr> dcp1 = None, dcp2 = None, match_group = None, match_df = None,
     match_x = None, match_y = None, atlas = None, progress = PyInt 0,
     valid = False, imag = False \<rparr>"

subsection \<open>rst\<close>

text \<open>The reset callback; \<open>n\<close> is the click count of the reset button.\<close>

definition rst :: "('d, 'a, 'f, 'v) session \<Rightarrow> int option \<Rightarrow> pyerr + ('d, 'a, 'f, 'v) session" where
  "rst s n =
     (if n = None then Inl PreventUpdate
      else Inr (s\<lparr> dcp1 := None, dcp2 := None, match_group := None, match_df := None,
                   match_x := None, match_y := None, atlas := None, progress := PyInt 0,
                   valid := False, imag := False \<rparr>))"

subsection \<open>validate\<close>

text \<open>
  The callback of the run button. \<open>setting\<close> is the value of the radio group: 1 (Analysis),
  2 (Comparison), 3 (Mode Matching) or None. The outputs are the message and the two styles.
\<close>

definition validate_message :: "('d, 'a, 'f, 'v) session \<Rightarrow> int option \<Rightarrow> string \<times> bool" where
  "validate_message s setting =
     (case setting of
        Some v \<Rightarrow>
          if v = 1 then
            (if dcp1 s = None then (''No file(s) chosen. '', True) else ('''', False))
          else if v = 2 then
            (if dcp1 s = None \<or> dcp2 s = None
             then (''Group '' @ str_int (if dcp2 s = None then 2 else 1) @ '' missing. '', True)
             else ('''', False))
          else if v = 3 then
            (let (message, error) =
                   (if dcp1 s = None then (''Reference group missing. '', True) else ('''', False))
             in if match_df s = None
                then (message @ ''Match group is loading. Please wait. '', True)
                else (message, error))
          else if atlas s = None then (''Parsing unsuccessful, no atlas found. '', True)
          else ('''', False)
      | None \<Rightarrow> (''No setting chosen. '', True))"

definition validate ::
  "('d, 'a, 'f, 'v) session \<Rightarrow> int option \<Rightarrow> int option
     \<Rightarrow> pyerr + (('d, 'a, 'f, 'v) session \<times> string \<times> style \<times> style)" where
  "validate s n setting =
     (if n = None then Inl PreventUpdate
      else let (message, error) = validate_message s setting
           in if error then Inr (s, message @ ''Check log for more info.'', Show, Show)
              else Inr (s\<lparr> valid := True \<rparr>, message, Hide, Hide))"

subsection \<open>The deficiencies of a run request, in the words of the specification\<close>

text \<open>
  The specification's reading of the run request: every required input of the selected mode
  that is absent is one deficiency, and the message lists them all. \<open>deficiencies\<close> follows
  those words; \<open>reported\<close> is what \<open>validate\<close> prints, and differs in Comparison when both
  groups are absent. The texts are those of the source.
\<close>

datatype deficiency = NoSetting | NoFiles | GroupMissing int | ReferenceMissing | MatchLoading

fun deficiency_text :: "deficiency \<Rightarrow> string" where
  "deficiency_text NoSetting = ''No setting chosen. ''"
| "deficiency_text NoFiles = ''No file(s) chosen. ''"
| "deficiency_text (GroupMissing k) = ''Group '' @ str_int k @ '' missing. ''"
| "deficiency_text ReferenceMissing = ''Reference group missing. ''"
| "deficiency_text MatchLoading = ''Match group is loading. Please wait. ''"

definition deficiencies :: "('d, 'a, 'f, 'v) session \<Rightarrow> int option \<Rightarrow> deficiency list" where
  "deficiencies s setting =
     (if setting = None then [NoSetting]
      else if setting = Some 1 then (if dcp1 s = None then [NoFiles] else [])
      else if setting = Some 2 then
        (if dcp1 s = None then [GroupMissing 1] else []) @
        (if dcp2 s = None then [GroupMissing 2] else [])
      else if setting = Some 3 then
        (if dcp1 s = None then [ReferenceMissing] else []) @
        (if match_df s = None then [MatchLoading] else [])
      else [])"

definition reported :: "('d, 'a, 'f, 'v) session \<Rightarrow> int option \<Rightarrow> deficiency list" where
  "reported s setting =
     (if setting = Some 2 \<and> dcp1 s = None \<and> dcp2 s = None then [GroupMissing 2]
      else deficiencies s setting)"

definition deficiency_message :: "deficiency list \<Rightarrow> string" where
  "deficiency_message ds = concat (map deficiency_text ds) @ ''Check log for more info.''"

section \<open>The file ingestor\<close>

subsection \<open>Python's str.split and tuple unpacking\<close>

text \<open>\<^verbatim>\<open>s.split(',')\<close>: the pieces of \<open>s\<close> between the separators; never the empty list.\<close>

fun py_split :: "char \<Rightarrow> string \<Rightarrow> string list" where
  "py_split c [] = [[]]"
| "py_split c (x # xs) =
     (if x = c then [] # py_split c xs
      else (case py_split c xs of r # rs \<Rightarrow> (x # r) # rs | [] \<Rightarrow> [[x]]))"

text \<open>\<^verbatim>\<open>_, string = parts\<close>: exactly two pieces, or ValueError.\<close>

definition unpack2 :: "string list \<Rightarrow> pyerr + (string \<times> string)" where
  "unpack2 parts =
     (case parts of
        [a, b] \<Rightarrow> Inr (a, b)
      | a # b # c # rest \<Rightarrow> Inl (ValueError ''too many values to unpack (expected 2)'')
      | _ \<Rightarrow> Inl (ValueError ''not enough values to unpack (expected 2, got 1)''))"

subsection \<open>The libraries the ingestor calls\<close>

text \<open>
  The decoders are library code (pathlib, base64, scipy.io, numpy) and are parameters of the
  model. Each may raise. \<open>'m\<close> is a numpy array. \<open>loadmat\<close> returns a dictionary, kept as
  the list of its items in iteration order. The result of \<open>genfromtxt\<close> is optional because
  the source tests it against None.
\<close>

record 'm codecs =
  path_suffix :: "string \<Rightarrow> string"
  b64decode :: "string \<Rightarrow> pyerr + string"
  loadmat :: "string \<Rightarrow> pyerr + (string \<times> 'm) list"
  decode_utf8 :: "string \<Rightarrow> pyerr + string"
  genfromtxt :: "string \<Rightarrow> pyerr + 'm option"

subsection \<open>One file\<close>

text \<open>
  The loop over \<^verbatim>\<open>matfile.keys()\<close>: \<open>d\<close> is overwritten at every key whose first two
  characters are not two underscores. \<^verbatim>\<open>matfile[key]\<close> is the lookup \<open>map_of matfile key\<close>.
\<close>

fun mat_loop :: "(string \<times> 'm) list \<Rightarrow> string list \<Rightarrow> 'm option \<Rightarrow> 'm option" where
  "mat_loop matfile [] d = d"
| "mat_loop matfile (key # keys) d =
     mat_loop matfile keys (if take 2 key \<noteq> ''__'' then map_of matfile key else d)"

text \<open>What is done with the text after the comma of a \<^verbatim>\<open>.mat\<close> descriptor.\<close>

definition decode_mat :: "'m codecs \<Rightarrow> string \<Rightarrow> pyerr + 'm option" where
  "decode_mat io string =
     (case b64decode io string of
        Inl e \<Rightarrow> Inl e
      | Inr mat \<Rightarrow>
          (case loadmat io mat of
             Inl e \<Rightarrow> Inl e
           | Inr matfile \<Rightarrow>
               (case mat_loop matfile (map fst matfile) None of
                  None \<Rightarrow> Inl (ImportError ''Invalid .mat file, no matrices inside.'')
                | Some d \<Rightarrow> Inr (Some d))))"

definition parse_mat :: "'m codecs \<Rightarrow> string \<Rightarrow> pyerr + 'm option" where
  "parse_mat io content =
     (case unpack2 (py_split CHR '','' content) of
        Inl e \<Rightarrow> Inl e
      | Inr (u, string) \<Rightarrow> decode_mat io string)"

text \<open>What is done with the text after the comma of a \<^verbatim>\<open>.csv\<close> descriptor.\<close>

definition decode_csv :: "'m codecs \<Rightarrow> string \<Rightarrow> pyerr + 'm option" where
  "decode_csv io content_string =
     (case b64decode io content_string of
        Inl e \<Rightarrow> Inl e
      | Inr decoded \<Rightarrow>
          (case decode_utf8 io decoded of
             Inl e \<Rightarrow> Inl e
           | Inr text \<Rightarrow>
               (case genfromtxt io text of
                  Inl e \<Rightarrow> Inl e
                | Inr None \<Rightarrow> Inl (ImportError ''Problem reading the csv file.'')
                | Inr (Some d) \<Rightarrow> Inr (Some d))))"

definition parse_csv :: "'m codecs \<Rightarrow> string \<Rightarrow> pyerr + 'm option" where
  "parse_csv io content =
     (case unpack2 (py_split CHR '','' content) of
        Inl e \<Rightarrow> Inl e
      | Inr (u, content_string) \<Rightarrow> decode_csv io content_string)"

text \<open>The body of the loop over the files: the value appended to \<^verbatim>\<open>data\<close>, or the exception.\<close>

definition parse_file :: "'m codecs \<Rightarrow> string \<Rightarrow> string \<Rightarrow> pyerr + 'm option" where
  "parse_file io content name =
     (if path_suffix io name = ''.mat'' then parse_mat io content
      else if path_suffix io name = ''.csv'' then parse_csv io content
      else Inr None)"

subsection \<open>The batch\<close>

fun parse_loop ::
  "'m codecs \<Rightarrow> (string \<times> string) list \<Rightarrow> 'm option list \<Rightarrow> pyerr + 'm option list" where
  "parse_loop io [] data = Inr data"
| "parse_loop io ((content, name) # rest) data =
     (case parse_file io content name of
        Inl e \<Rightarrow> Inl e
      | Inr d \<Rightarrow> parse_loop io rest (data @ [d]))"

text \<open>
  The analysis library nidmd and the table builder are parameters too. \<open>'d\<close> is a
  Decomposition, \<open>'a\<close> its atlas, \<open>'f\<close> a data frame, \<open>'v\<close> a series, \<open>'w\<close> the table
  widget. \<open>run\<close> returns the decomposition after \<^verbatim>\<open>dcp.run()\<close>; \<open>df_columns\<close> is the
  selection of the four columns of \<^verbatim>\<open>dcp.df\<close>; \<open>create_table\<close> is \<^verbatim>\<open>_create_table\<close> on a
  data frame. The sampling time is the number given to \<^verbatim>\<open>float\<close>.
\<close>

record ('m, 'd, 'a, 'f, 'v, 'w) nidmd =
  Decomposition :: "'m option list \<Rightarrow> rat \<Rightarrow> pyerr + 'd"
  dcp_atlas :: "'d \<Rightarrow> 'a option"
  atlas_size :: "'a \<Rightarrow> nat"
  run :: "'d \<Rightarrow> pyerr + 'd"
  df_columns :: "'d \<Rightarrow> pyerr + 'f"
  compute_match :: "'d \<Rightarrow> 'd \<Rightarrow> int \<Rightarrow> pyerr + ('f \<times> 'v \<times> 'v)"
  create_table :: "'f \<Rightarrow> pyerr + 'w"

text \<open>
  \<^verbatim>\<open>_parse_files\<close>. \<open>files\<close> is None when the upload component has no file names; then
  \<^verbatim>\<open>len(files)\<close> raises. The only attribute written is \<^verbatim>\<open>atlas\<close>, after the decomposition
  has been built.
\<close>

definition parse_files ::
  "'m codecs \<Rightarrow> ('m, 'd, 'a, 'f, 'v, 'w) nidmd \<Rightarrow> ('d, 'a, 'f, 'v) session
     \<Rightarrow> string list \<Rightarrow> string list option \<Rightarrow> rat
     \<Rightarrow> pyerr + (('d, 'a, 'f, 'v) session \<times> 'd)" where
  "parse_files io lib s contents files sampling_time =
     (case files of
        None \<Rightarrow>
          Inl (TypeError (''object of type '' @ quoted ''NoneType'' @ '' has no len()''))
      | Some names \<Rightarrow>
          (case parse_loop io (zip contents names) [] of
             Inl e \<Rightarrow> Inl e
           | Inr data \<Rightarrow>
               (case Decomposition lib data sampling_time of
                  Inl e \<Rightarrow> Inl e
                | Inr dcp \<Rightarrow> Inr (s\<lparr> atlas := dcp_atlas lib dcp \<rparr>, dcp))))"

section \<open>Python floats\<close>

text \<open>
  A Python float is an IEEE 754 binary64 number. A finite one is kept as the rational it
  denotes. \<open>fl x\<close> is \<open>x\<close> rounded to the nearest binary64 value, ties to the even
  significand: \<open>binexp x\<close> is the exponent \<open>e\<close> with \<open>2\<^sup>e \<le> |x| < 2\<^sup>e\<^sup>+\<^sup>1\<close>, and the spacing
  of the binary64 values around \<open>x\<close> is \<open>quantum x\<close>, 52 binary places below the leading bit
  and never finer than \<open>2\<^sup>-\<^sup>1\<^sup>0\<^sup>7\<^sup>4\<close>. A result of magnitude \<open>2\<^sup>1\<^sup>0\<^sup>2\<^sup>4\<close> or more is an overflow.
\<close>

definition round_half_even :: "rat \<Rightarrow> int" where
  "round_half_even x =
     (let f = \<lfloor>x\<rfloor>; r = x - of_int f
      in if r < 1 / 2 then f else if 1 / 2 < r then f + 1 else if even f then f else f + 1)"

definition binexp :: "rat \<Rightarrow> int" where
  "binexp x =
     (let (p, q) = quotient_of \<bar>x\<bar>;
          k = int (floorlog 2 (nat p)) - int (floorlog 2 (nat q))
      in if 2 powi k \<le> \<bar>x\<bar> then k else k - 1)"

definition quantum :: "rat \<Rightarrow> rat" where
  "quantum x = 2 powi (max (binexp x) (- 1022) - 52)"

definition fl :: "rat \<Rightarrow> rat" where
  "fl x = (if x = 0 then 0 else of_int (round_half_even (x / quantum x)) * quantum x)"

definition to_double :: "rat \<Rightarrow> rat option" where
  "to_double x = (let y = fl x in if \<bar>y\<bar> < 2 ^ 1024 then Some y else None)"

text \<open>
  \<^verbatim>\<open>float(x)\<close> of a number, or of None. The message for None is the one of Python 3.10 and
  later; earlier versions say \<^verbatim>\<open>a number\<close> for \<^verbatim>\<open>a real number\<close>.
\<close>

definition py_float :: "rat option \<Rightarrow> pyerr + rat" where
  "py_float x =
     (case x of
        None \<Rightarrow>
          Inl (TypeError (''float() argument must be a string or a real number, not ''
                 @ quoted ''NoneType''))
      | Some v \<Rightarrow>
          (case to_double v of
             None \<Rightarrow> Inl (OverflowError ''int too large to convert to float'')
           | Some y \<Rightarrow> Inr y))"

text \<open>\<^verbatim>\<open>int(x)\<close> of a finite float: truncation towards zero.\<close>

definition py_int :: "rat \<Rightarrow> int" where
  "py_int x = (if 0 \<le> x then \<lfloor>x\<rfloor> else \<lceil>x\<rceil>)"

text \<open>
  \<^verbatim>\<open>int(approx_deg / 100.0 * size)\<close> for an int \<open>approx_deg\<close> and the atlas size \<open>asize\<close>: both are
  converted to float, the quotient and the product are rounded, and an infinite or
  undefined product cannot be converted.
\<close>

definition no_modes :: "int \<Rightarrow> nat \<Rightarrow> pyerr + int" where
  "no_modes approx_deg asize =
     (case to_double (of_int approx_deg) of
        None \<Rightarrow> Inl (OverflowError ''int too large to convert to float'')
      | Some a \<Rightarrow>
          (case to_double (of_nat asize) of
             None \<Rightarrow> Inl (OverflowError ''int too large to convert to float'')
           | Some n \<Rightarrow>
               (case to_double (a / 100) of
                  None \<Rightarrow>
                    if n = 0 then Inl (ValueError ''cannot convert float NaN to integer'')
                    else Inl (OverflowError ''cannot convert float infinity to integer'')
                | Some q \<Rightarrow>
                    (case to_double (q * n) of
                       None \<Rightarrow> Inl (OverflowError ''cannot convert float infinity to integer'')
                     | Some p \<Rightarrow> Inr (py_int p)))))"

text \<open>
  In \<^verbatim>\<open>upload\<close> the operand \<^verbatim>\<open>approx_deg / 100.0\<close> is evaluated before
  \<^verbatim>\<open>self.match_group.atlas.size\<close> is read, so that an int too large for a float raises
  whatever the atlas is. \<open>degree_fraction\<close> is that operand, and \<open>modes_of_fraction\<close> is the
  product with the size and its conversion to int.
\<close>

definition degree_fraction :: "int \<Rightarrow> pyerr + rat" where
  "degree_fraction approx_deg =
     (case to_double (of_int approx_deg) of
        None \<Rightarrow> Inl (OverflowError ''int too large to convert to float'')
      | Some a \<Rightarrow> Inr (fl (a / 100)))"

definition modes_of_fraction :: "rat \<Rightarrow> nat \<Rightarrow> pyerr + int" where
  "modes_of_fraction q asize =
     (case to_double (of_nat asize) of
        None \<Rightarrow> Inl (OverflowError ''int too large to convert to float'')
      | Some n \<Rightarrow>
          (case to_double (q * n) of
             None \<Rightarrow> Inl (OverflowError ''cannot convert float infinity to integer'')
           | Some p \<Rightarrow> Inr (py_int p)))"

section \<open>The progress callback\<close>







section \<open>The upload callback\<close>

text \<open>\<^verbatim>\<open>', \n'.join(lines)\<close> of the inner function \<^verbatim>\<open>indent\<close>.\<close>

fun py_join :: "string \<Rightarrow> string list \<Rightarrow> string" where
  "py_join sep [] = []"
| "py_join sep [x] = x"
| "py_join sep (x # y # ys) = x @ sep @ py_join sep (y # ys)"

definition indent :: "string list option \<Rightarrow> string option" where
  "indent lines = map_option (py_join [CHR '','', CHR '' '', CHR 0x0A]) lines"

record 'w upload_out =
  selected1 :: "string option"
  selected2 :: "string option"
  tab1 :: "'w option"
  tab2 :: "'w option"
  disabled :: bool
  progress1_style :: style
  progress2_style :: style
  message :: string
  alert_style :: style

text \<open>
  The statements of the \<^verbatim>\<open>try\<close> block, in three parts. Each part returns the attributes as
  they are when it ends, and either the exception that ended it or the local variables it
  assigned. An attribute assigned before an exception keeps its new value. A failed
  \<^verbatim>\<open>run()\<close> is taken to leave the decomposition as it was built.
\<close>

definition upload_group1 ::
  "'m codecs \<Rightarrow> ('m, 'd, 'a, 'f, 'v, 'w) nidmd \<Rightarrow> ('d, 'a, 'f, 'v) session
     \<Rightarrow> string list option \<Rightarrow> string list option \<Rightarrow> rat option
     \<Rightarrow> ('d, 'a, 'f, 'v) session \<times> (pyerr + 'w option)" where
  "upload_group1 io lib s contents1 names1 time =
     (case contents1 of
        None \<Rightarrow> (s, Inr None)
      | Some c1 \<Rightarrow>
          (case py_float time of
             Inl e \<Rightarrow> (s, Inl e)
           | Inr t \<Rightarrow>
               (case parse_files io lib s c1 names1 t of
                  Inl e \<Rightarrow> (s, Inl e)
                | Inr (s1, dcp) \<Rightarrow>
                    (case run lib dcp of
                       Inl e \<Rightarrow> (s1\<lparr> dcp1 := Some dcp \<rparr>, Inl e)
                     | Inr dcp' \<Rightarrow>
                         (let s2 = s1\<lparr> dcp1 := Some dcp' \<rparr>
                          in case df_columns lib dcp' of
                               Inl e \<Rightarrow> (s2, Inl e)
                             | Inr df1 \<Rightarrow>
                                 (case create_table lib df1 of
                                    Inl e \<Rightarrow> (s2, Inl e)
                                  | Inr w \<Rightarrow> (s2, Inr (Some w))))))))"

text \<open>The branch \<^verbatim>\<open>if setting == 2\<close>: the second group of a comparison.\<close>

definition upload_comparison ::
  "'m codecs \<Rightarrow> ('m, 'd, 'a, 'f, 'v, 'w) nidmd \<Rightarrow> ('d, 'a, 'f, 'v) session
     \<Rightarrow> string list \<Rightarrow> string list option \<Rightarrow> rat option
     \<Rightarrow> ('d, 'a, 'f, 'v) session \<times> (pyerr + ('w option \<times> bool))" where
  "upload_comparison io lib s c2 names2 time =
     (case py_float time of
        Inl e \<Rightarrow> (s, Inl e)
      | Inr t \<Rightarrow>
          (case parse_files io lib s c2 names2 t of
             Inl e \<Rightarrow> (s, Inl e)
           | Inr (s1, dcp) \<Rightarrow>
               (case run lib dcp of
                  Inl e \<Rightarrow> (s1\<lparr> dcp2 := Some dcp \<rparr>, Inl e)
                | Inr dcp' \<Rightarrow>
                    (let s2 = s1\<lparr> dcp2 := Some dcp' \<rparr>
                     in case df_columns lib dcp' of
                          Inl e \<Rightarrow> (s2, Inl e)
                        | Inr df2 \<Rightarrow>
                            (case create_table lib df2 of
                               Inl e \<Rightarrow> (s2, Inl e)
                             | Inr w \<Rightarrow> (s2, Inr (Some w, False)))))))"

text \<open>
  The branch \<^verbatim>\<open>if setting == 3\<close>: the match group. \<^verbatim>\<open>self.match_group\<close> is assigned
  before the reference is looked at.
\<close>

definition upload_match ::
  "'m codecs \<Rightarrow> ('m, 'd, 'a, 'f, 'v, 'w) nidmd \<Rightarrow> ('d, 'a, 'f, 'v) session
     \<Rightarrow> string list \<Rightarrow> string list option \<Rightarrow> rat option \<Rightarrow> int option
     \<Rightarrow> ('d, 'a, 'f, 'v) session \<times> (pyerr + ('w option \<times> bool))" where
  "upload_match io lib s c2 names2 time approx_deg =
     (case py_float time of
        Inl e \<Rightarrow> (s, Inl e)
      | Inr t \<Rightarrow>
          (case parse_files io lib s c2 names2 t of
             Inl e \<Rightarrow> (s, Inl e)
           | Inr (s1, mg) \<Rightarrow>
               (case run lib mg of
                  Inl e \<Rightarrow> (s1\<lparr> match_group := Some mg \<rparr>, Inl e)
                | Inr mg' \<Rightarrow>
                    (let s2 = s1\<lparr> match_group := Some mg' \<rparr>
                     in case dcp1 s2 of
                          None \<Rightarrow>
                            (s2, Inl (ImportError
                               ''Please upload Reference group before Match group.''))
                        | Some ref \<Rightarrow>
                            (case approx_deg of
                               None \<Rightarrow>
                                 (s2, Inl (TypeError
                                    (''unsupported operand type(s) for /: ''
                                     @ quoted ''NoneType'' @ '' and '' @ quoted ''float'')))
                             | Some deg \<Rightarrow>
                                 (case degree_fraction deg of
                                    Inl e \<Rightarrow> (s2, Inl e)
                                  | Inr q \<Rightarrow>
                                      (case dcp_atlas lib mg' of
                                         None \<Rightarrow>
                                           (s2, Inl (AttributeError
                                              (quoted ''NoneType''
                                               @ '' object has no attribute '' @ quoted ''size'')))
                                       | Some a \<Rightarrow>
                                           (case modes_of_fraction q (atlas_size lib a) of
                                              Inl e \<Rightarrow> (s2, Inl e)
                                            | Inr k \<Rightarrow>
                                                (case compute_match lib ref mg' k of
                                                   Inl e \<Rightarrow> (s2, Inl e)
                                                 | Inr (df, x, y) \<Rightarrow>
                                                     (let s3 = s2\<lparr> match_df := Some df,
                                                            match_x := Some x, match_y := Some y \<rparr>
                                                      in case create_table lib df of
                                                           Inl e \<Rightarrow> (s3, Inl e)
                                                         | Inr w \<Rightarrow>
                                                             (s3, Inr (Some w, False))))))))))))"

definition upload_group2 ::
  "'m codecs \<Rightarrow> ('m, 'd, 'a, 'f, 'v, 'w) nidmd \<Rightarrow> ('d, 'a, 'f, 'v) session
     \<Rightarrow> string list option \<Rightarrow> string list option \<Rightarrow> rat option \<Rightarrow> int option
     \<Rightarrow> int option
     \<Rightarrow> ('d, 'a, 'f, 'v) session \<times> (pyerr + ('w option \<times> bool))" where
  "upload_group2 io lib s contents2 names2 time setting approx_deg =
     (if setting \<noteq> Some 1 then
        (case contents2 of
           None \<Rightarrow> (s, Inr (None, True))
         | Some c2 \<Rightarrow>
             if dcp2 s = None \<or> match_group s = None then
               (if setting = Some 2 then upload_comparison io lib s c2 names2 time
                else if setting = Some 3 then upload_match io lib s c2 names2 time approx_deg
                else (s, Inr (None, True)))
             else (s, Inr (None, True)))
      else (s, Inr (None, True)))"

text \<open>
  \<^verbatim>\<open>upload\<close>. The arguments are the contents and file names of the two upload components,
  the sampling time, the setting and the approximation degree. PreventUpdate is raised
  before anything is written; every other exception is caught and becomes the message.
\<close>

definition upload ::
  "'m codecs \<Rightarrow> ('m, 'd, 'a, 'f, 'v, 'w) nidmd \<Rightarrow> ('d, 'a, 'f, 'v) session
     \<Rightarrow> string list option \<Rightarrow> string list option \<Rightarrow> rat option
     \<Rightarrow> string list option \<Rightarrow> string list option \<Rightarrow> int option \<Rightarrow> int option
     \<Rightarrow> pyerr + (('d, 'a, 'f, 'v) session \<times> 'w upload_out)" where
  "upload io lib s contents1 contents2 time names1 names2 setting approx_deg =
     (if contents1 = None \<and> contents2 = None \<and> names1 = None \<and> names2 = None
      then Inl PreventUpdate
      else
        (let out = \<lparr> selected1 = indent names1, selected2 = indent names2,
                      tab1 = None, tab2 = None, disabled = True,
                      progress1_style = (if contents1 \<noteq> None then Hide else Show),
                      progress2_style = (if contents2 \<noteq> None then Hide else Show),
                      message = '''', alert_style = Hide \<rparr>
         in case upload_group1 io lib s contents1 names1 time of
              (s1, Inl e) \<Rightarrow> Inr (s1, out\<lparr> message := str_exc e, alert_style := Show \<rparr>)
            | (s1, Inr t1) \<Rightarrow>
                (case upload_group2 io lib s1 contents2 names2 time setting approx_deg of
                   (s2, Inl e) \<Rightarrow>
                     Inr (s2, out\<lparr> tab1 := t1, message := str_exc e, alert_style := Show \<rparr>)
                 | (s2, Inr (t2, dis)) \<Rightarrow>
                     Inr (s2, out\<lparr> tab1 := t1, tab2 := t2, disabled := dis \<rparr>))))"

section \<open>The callbacks as events on the session\<close>

text \<open>
  \<^verbatim>\<open>input_setting\<close> returns styles and labels only and writes no attribute: the setting lives
  in the radio group and reaches \<^verbatim>\<open>upload\<close> and \<^verbatim>\<open>validate\<close> as an argument. The outputs
  kept here are the styles of the two upload regions and of the approximation degree.
\<close>

definition input_setting :: "int option \<Rightarrow> (style \<times> style \<times> style) option" where
  "input_setting v =
     (if v = None then Some (Hide, Hide, Hide)
      else if v = Some 1 then Some (Show, Hide, Hide)
      else if v = Some 2 then Some (Show, Show, Hide)
      else if v = Some 3 then Some (Show, Show, Show)
      else None)"

datatype event =
    InputSetting "int option"
  | Upload "string list option" "string list option" "rat option"
      "string list option" "string list option" "int option" "int option"
  | Validate "int option" "int option"
  | Rst "int option"

text \<open>One callback run: an exception that leaves the callback leaves the attributes as they were.\<close>

fun step ::
  "'m codecs \<Rightarrow> ('m, 'd, 'a, 'f, 'v, 'w) nidmd \<Rightarrow> ('d, 'a, 'f, 'v) session \<Rightarrow> event
     \<Rightarrow> ('d, 'a, 'f, 'v) session" where
  "step io lib s (InputSetting v) = s"
| "step io lib s (Upload c1 c2 t n1 n2 setting deg) =
     (case upload io lib s c1 c2 t n1 n2 setting deg of Inl e \<Rightarrow> s | Inr (s', out) \<Rightarrow> s')"
| "step io lib s (Validate n setting) =
     (case validate s n setting of Inl e \<Rightarrow> s | Inr (s', out) \<Rightarrow> s')"
| "step io lib s (Rst n) = (case rst s n of Inl e \<Rightarrow> s | Inr s' \<Rightarrow> s')"

definition run_events ::
  "'m codecs \<Rightarrow> ('m, 'd, 'a, 'f, 'v, 'w) nidmd \<Rightarrow> ('d, 'a, 'f, 'v) session \<Rightarrow> event list
     \<Rightarrow> ('d, 'a, 'f, 'v) session" where
  "run_events io lib s evs = foldl (step io lib) s evs"

section \<open>Stand-ins for the libraries\<close>

text \<open>
  To run the model on concrete uploads, the library parameters are given simple values.
  \<open>demo_suffix\<close> is \<^verbatim>\<open>Path(name).suffix\<close> on a plain file name. \<open>demo_codecs\<close> decodes a
  few base64 texts (\<^verbatim>\<open>b64decode\<close> drops a character outside its alphabet, such as a
  comma), reads three byte strings as MAT files, one with the matrices X and Y after the
  three header entries, one with a single matrix of three rows and one with header entries
  only, and reads a text with no data line (the empty text, a lone line break) as the empty
  array, which is what \<^verbatim>\<open>numpy.genfromtxt\<close> returns for it. \<open>demo_nidmd\<close> keeps the data
  of a decomposition; its atlas is the number of rows of the first matrix.
\<close>

definition demo_suffix :: "string \<Rightarrow> string" where
  "demo_suffix name =
     (let ext = rev (takeWhile (\<lambda>c. c \<noteq> CHR ''.'') (rev name))
      in if CHR ''.'' \<in> set name \<and> ext \<noteq> [] \<and> Suc (length ext) < length name
         then CHR ''.'' # ext else [])"

definition demo_codecs :: "int list list codecs" where
  "demo_codecs =
     \<lparr> path_suffix = demo_suffix,
       b64decode = (\<lambda>s.
          case map_of [([], []), (''Cg=='', [CHR 0x0A]), (''MSwy'', ''1,2''),
                       (''dHdv'', ''two''), (''dH,dv'', ''two''), (''bm9uZQ=='', ''none''),
                       (''cmVzdA=='', ''rest'')] s of
            Some bytes \<Rightarrow> Inr bytes
          | None \<Rightarrow> Inl (LibraryError ''Incorrect padding'')),
       loadmat = (\<lambda>bytes.
          if bytes = ''two'' then
            Inr [(''__header__'', []), (''__version__'', []), (''__globals__'', []),
                 (''X'', [[1, 2], [3, 4]]), (''Y'', [[5, 6], [7, 8]])]
          else if bytes = ''rest'' then
            Inr [(''__header__'', []), (''__version__'', []), (''__globals__'', []),
                 (''data'', [[1, 2], [3, 4], [5, 6]])]
          else if bytes = ''none'' then
            Inr [(''__header__'', []), (''__version__'', []), (''__globals__'', [])]
          else Inl (ValueError ''Unknown mat file type'')),
       decode_utf8 = Inr,
       genfromtxt = (\<lambda>table.
          if table = [] \<or> table = [CHR 0x0A] then Inr (Some [])
          else if table = ''1,2'' then Inr (Some [[1, 2]])
          else Inl (ValueError ''Some errors were detected !'')) \<rparr>"

definition demo_nidmd ::
  "(int list list, int list list option list, nat, nat, int, nat) nidmd" where
  "demo_nidmd =
     \<lparr> Decomposition = (\<lambda>data t. Inr data),
       dcp_atlas = (\<lambda>d. case d of Some m # rest \<Rightarrow> Some (length m) | _ \<Rightarrow> None),
       atlas_size = (\<lambda>a. a),
       run = Inr,
       df_columns = (\<lambda>d. Inr (length d)),
       compute_match = (\<lambda>ref mg k. Inr (length mg, k, k)),
       create_table = Inr \<rparr>"

text \<open>The value the layout gives the sampling time field: \<^verbatim>\<open>value=0.72\<close>.\<close>

definition default_sampling_time :: "rat option" where
  "default_sampling_time = Some (72 / 100)"

subsection \<open>The ingestor in the words of the specification\<close>

text \<open>
  The specification has the descriptor split on its first comma: the text before it and the
  text after it.
\<close>

definition split_first :: "char \<Rightarrow> string \<Rightarrow> string \<times> string" where
  "split_first c s = (takeWhile (\<lambda>x. x \<noteq> c) s, tl (dropWhile (\<lambda>x. x \<noteq> c) s))"

subsection \<open>Runs that keep the two modes apart\<close>

text \<open>
  Only an upload that carries files for the second group writes the comparison
  decomposition, in Comparison (setting 2), or the match result, in Mode Matching
  (setting 3). \<open>modes_apart c m evs\<close>: no such upload in Comparison and such an upload in
  Mode Matching run without a reset that took effect between them. The flag \<open>c\<close> says that
  one in Comparison has run since the last such reset, and \<open>m\<close> that one in Mode Matching
  has. Every other event is free: mode selections, run requests, uploads of the first group
  alone or in Analysis, the upload call of the page load, and resets. \<open>exclusive c m s\<close> is
  the part of the session that such a run keeps empty.
\<close>

fun modes_apart :: "bool \<Rightarrow> bool \<Rightarrow> event list \<Rightarrow> bool" where
  "modes_apart c m [] = True"
| "modes_apart c m (InputSetting v # evs) = modes_apart c m evs"
| "modes_apart c m (Validate n setting # evs) = modes_apart c m evs"
| "modes_apart c m (Rst n # evs) =
     (if n = None then modes_apart c m evs else modes_apart False False evs)"
| "modes_apart c m (Upload c1 c2 t n1 n2 setting deg # evs) =
     (let c' = (c \<or> (c2 \<noteq> None \<and> setting = Some 2));
          m' = (m \<or> (c2 \<noteq> None \<and> setting = Some 3))
      in \<not> (c' \<and> m') \<and> modes_apart c' m' evs)"

definition exclusive :: "bool \<Rightarrow> bool \<Rightarrow> ('d, 'a, 'f, 'v) session \<Rightarrow> bool" where
  "exclusive c m s = ((c \<or> dcp2 s = None) \<and> (m \<or> match_df s = None))"

section \<open>Properties of validate\<close>

lemma validate_message_Analysis:
  "validate_message s (Some 1) =
     (if dcp1 s = None then (''No file(s) chosen. '', True) else ('''', False))"
  by (simp add: validate_message_def)

lemma validate_message_Comparison:
  "validate_message s (Some 2) =
     (if dcp2 s = None then (''Group 2 missing. '', True)
      else if dcp1 s = None then (''Group 1 missing. '', True) else ('''', False))"
  by (simp add: validate_message_def str_int_def)

lemma validate_message_Match:
  "validate_message s (Some 3) =
     (if dcp1 s = None
      then (if match_df s = None
            then (''Reference group missing. Match group is loading. Please wait. '', True)
            else (''Reference group missing. '', True))
      else if match_df s = None then (''Match group is loading. Please wait. '', True)
      else ('''', False))"
  by (simp add: validate_message_def)

lemma validate_message_unset:
  "validate_message s None = (''No setting chosen. '', True)"
  by (simp add: validate_message_def)

text \<open>
  C9. When the setting is 1, 2 or 3, the atlas plays no part in \<open>validate\<close>: replacing the
  atlas by any value (in particular by None) changes neither the outcome nor the outputs, and
  the message of the atlas branch, "Parsing unsuccessful, no atlas found.", is never
  returned. The atlas test sits on the last \<^verbatim>\<open>elif\<close> of the chain over the setting.
\<close>

theorem validate_atlas_branch_unreachable:
  assumes "setting \<in> {Some 1, Some 2, Some 3}"
  shows "validate (s\<lparr> atlas := a \<rparr>) n setting
           = map_sum id (\<lambda>(s', out). (s'\<lparr> atlas := a \<rparr>, out)) (validate s n setting)
         \<and> (\<forall>s' st1 st2. validate s n setting \<noteq>
               Inr (s', ''Parsing unsuccessful, no atlas found. Check log for more info.'', st1, st2))"
proof -
  consider "setting = Some 1" | "setting = Some 2" | "setting = Some 3"
    using assms by blast
  then show ?thesis
  proof cases
    case 1
    then show ?thesis by (simp add: validate_def validate_message_Analysis)
  next
    case 2
    then show ?thesis by (simp add: validate_def validate_message_Comparison)
  next
    case 3
    then show ?thesis by (simp add: validate_def validate_message_Match)
  qed
qed

theorem validate_atlas_branch_unreachable_witness:
  "validate ((init_session :: (unit, unit, unit, unit) session)\<lparr> dcp1 := Some (), atlas := None \<rparr>)
       (Some 1) (Some 1)
     = Inr (init_session\<lparr> dcp1 := Some (), atlas := None, valid := True \<rparr>, '''', Hide, Hide)"
  using validate_atlas_branch_unreachable [where setting = "Some 1" and n = "Some 1" and a = None
      and s = "init_session\<lparr> dcp1 := Some () \<rparr>"]
  by (simp add: validate_def validate_message_Analysis init_session_def)

text \<open>
  C6, as stated, fails: in Comparison with both groups absent the message names Group 2 only,
  so it is not the accumulation of every applicable deficiency.
\<close>

theorem validate_accumulate_counterexample:
  "map_sum id (fst \<circ> snd)
     (validate (init_session :: (unit, unit, unit, unit) session) (Some 1) (Some 2))
   \<noteq> Inr (deficiency_message
            (deficiencies (init_session :: (unit, unit, unit, unit) session) (Some 2)))"
  by (simp add: validate_def validate_message_Comparison init_session_def deficiency_message_def
      deficiencies_def str_int_def)

text \<open>
  C6, amended. After a click on the run button (\<open>n\<close> is not None) and for a setting that is
  unset or one of the three modes, \<open>validate\<close> returns and does not raise. It sets \<open>valid\<close> to
  True, with an empty message, exactly when no required input of the mode is absent;
  otherwise it leaves the session as it is and returns one message: the texts of the absent
  inputs, one after the other, followed by the pointer to the log. In Comparison with both
  groups absent the message names Group 2 only.
\<close>

theorem validate_never_raises:
  assumes "n \<noteq> None" and "setting \<in> {None, Some 1, Some 2, Some 3}"
  shows "validate s n setting =
           (if deficiencies s setting = [] then Inr (s\<lparr> valid := True \<rparr>, '''', Hide, Hide)
            else Inr (s, deficiency_message (reported s setting), Show, Show))"
proof -
  consider "setting = None" | "setting = Some 1" | "setting = Some 2" | "setting = Some 3"
    using assms(2) by blast
  then show ?thesis
  proof cases
    case 1
    then show ?thesis using assms(1)
      by (simp add: validate_def validate_message_unset deficiency_message_def reported_def
          deficiencies_def)
  next
    case 2
    then show ?thesis using assms(1)
      by (simp add: validate_def validate_message_Analysis deficiency_message_def reported_def
          deficiencies_def)
  next
    case 3
    then show ?thesis using assms(1)
      by (simp add: validate_def validate_message_Comparison deficiency_message_def reported_def
          deficiencies_def str_int_def)
  next
    case 4
    then show ?thesis using assms(1)
      by (simp add: validate_def validate_message_Match deficiency_message_def reported_def
          deficiencies_def)
  qed
qed

theorem validate_never_raises_witness:
  "validate ((init_session :: (unit, unit, unit, unit) session)\<lparr> dcp1 := Some () \<rparr>)
       (Some 1) (Some 3)
     = Inr (init_session\<lparr> dcp1 := Some () \<rparr>,
            ''Match group is loading. Please wait. Check log for more info.'', Show, Show)"
  using validate_never_raises [where n = "Some 1" and setting = "Some 3"
      and s = "init_session\<lparr> dcp1 := Some () \<rparr>"]
  by (simp add: deficiency_message_def reported_def deficiencies_def init_session_def)

section \<open>Properties of the file ingestor\<close>

subsection \<open>The matrix taken from a .mat file\<close>

lemma mat_loop_filter:
  "mat_loop matfile keys d =
     (case filter (\<lambda>key. take 2 key \<noteq> ''__'') keys of
        [] \<Rightarrow> d
      | k # ks \<Rightarrow> map_of matfile (last (k # ks)))"
proof (induction keys arbitrary: d)
  case Nil
  show ?case by simp
next
  case (Cons key keys)
  show ?case
    by (simp only: mat_loop.simps Cons.IH filter.simps split: list.split if_split) auto
qed

lemma filter_keys_entries:
  "filter P (map fst kvs) = map fst (filter (\<lambda>(k, v). P k) kvs)"
  by (induction kvs) auto

lemma mat_loop_last_entry:
  assumes "distinct (map fst matfile)"
  shows "mat_loop matfile (map fst matfile) None =
           (let entries = filter (\<lambda>(key, m). take 2 key \<noteq> ''__'') matfile
            in if entries = [] then None else Some (snd (last entries)))"
proof -
  define entries where "entries = filter (\<lambda>(key, m). take 2 key \<noteq> ''__'') matfile"
  have keys: "filter (\<lambda>key. take 2 key \<noteq> ''__'') (map fst matfile) = map fst entries"
    unfolding entries_def by (rule filter_keys_entries)
  show ?thesis
  proof (cases "entries = []")
    case True
    then show ?thesis
      using keys by (simp add: mat_loop_filter entries_def [symmetric])
  next
    case False
    then have "last entries \<in> set matfile"
      using last_in_set [of entries] by (auto simp: entries_def)
    then have "map_of matfile (fst (last entries)) = Some (snd (last entries))"
      using assms by simp
    moreover have "last (map fst entries) = fst (last entries)"
      using False by (simp add: last_map)
    moreover obtain k ks where "map fst entries = k # ks"
      using False by (cases entries) auto
    ultimately show ?thesis
      using keys False by (simp add: mat_loop_filter entries_def [symmetric])
  qed
qed

lemma parse_file_mat_entries:
  assumes "path_suffix io name = ''.mat''"
    and "unpack2 (py_split CHR '','' content) = Inr (u, string)"
    and "b64decode io string = Inr mat"
    and "loadmat io mat = Inr matfile"
    and "distinct (map fst matfile)"
  shows "parse_file io content name =
           (let entries = filter (\<lambda>(key, m). take 2 key \<noteq> ''__'') matfile
            in if entries = []
               then Inl (ImportError ''Invalid .mat file, no matrices inside.'')
               else Inr (Some (snd (last entries))))"
  using assms(1-4)
  by (simp add: parse_file_def parse_mat_def decode_mat_def mat_loop_last_entry [OF assms(5)]
      Let_def)

text \<open>
  C1. Take a file whose name has the suffix \<^verbatim>\<open>.mat\<close>, whose descriptor splits into two
  parts, and whose second part decodes and loads as a dictionary (its keys are distinct).
  If some entry has a key that does not begin with two underscores, the value appended to
  the data is the matrix of the last such entry in iteration order, and a batch made of
  this file gives the decomposition built from that matrix; if no entry has, the file, and
  the batch, fail with the ImportError "Invalid .mat file, no matrices inside.".
\<close>

theorem parse_mat_last_entry:
  assumes "path_suffix io name = ''.mat''"
    and "unpack2 (py_split CHR '','' content) = Inr (u, string)"
    and "b64decode io string = Inr mat"
    and "loadmat io mat = Inr matfile"
    and "distinct (map fst matfile)"
  shows "parse_file io content name =
           (let entries = filter (\<lambda>(key, m). take 2 key \<noteq> ''__'') matfile
            in if entries = []
               then Inl (ImportError ''Invalid .mat file, no matrices inside.'')
               else Inr (Some (snd (last entries))))
       \<and> parse_files io lib s [content] (Some [name]) t =
           (let entries = filter (\<lambda>(key, m). take 2 key \<noteq> ''__'') matfile
            in if entries = []
               then Inl (ImportError ''Invalid .mat file, no matrices inside.'')
               else (case Decomposition lib [Some (snd (last entries))] t of
                       Inl e \<Rightarrow> Inl e
                     | Inr dcp \<Rightarrow> Inr (s\<lparr> atlas := dcp_atlas lib dcp \<rparr>, dcp)))"
  by (simp add: parse_files_def parse_file_mat_entries [OF assms] Let_def)

theorem parse_mat_last_entry_witness:
  "parse_file demo_codecs ''data:application/octet-stream;base64,dHdv'' ''scan.mat''
     = Inr (Some [[5, 6], [7, 8]])
   \<and> parse_files demo_codecs demo_nidmd init_session
       [''data:application/octet-stream;base64,dHdv''] (Some [''scan.mat'']) (72 / 100)
     = Inr (init_session\<lparr> atlas := Some 2 \<rparr>, [Some [[5, 6], [7, 8]]])"
  using parse_mat_last_entry [where io = demo_codecs and name = "''scan.mat''"
      and content = "''data:application/octet-stream;base64,dHdv''"
      and u = "''data:application/octet-stream;base64''" and string = "''dHdv''"
      and mat = "''two''"
      and matfile = "[(''__header__'', []), (''__version__'', []), (''__globals__'', []),
                      (''X'', [[1, 2], [3, 4]]), (''Y'', [[5, 6], [7, 8]])]"
      and lib = demo_nidmd and s = init_session and t = "72 / 100"]
  by (simp add: demo_codecs_def demo_suffix_def unpack2_def demo_nidmd_def)

subsection \<open>The guard of the .csv branch\<close>

text \<open>
  C5. For a file whose name has the suffix \<^verbatim>\<open>.csv\<close> and whose descriptor splits and
  decodes, the outcome is decided by what \<^verbatim>\<open>genfromtxt\<close> returns: the ImportError
  "Problem reading the csv file." is raised only when it returns None, and any array it
  returns, the empty one included, is appended to the data. A file that holds a line break
  and no data is accepted with the empty array.
\<close>

theorem parse_csv_guard:
  assumes "path_suffix io name = ''.csv''"
    and "unpack2 (py_split CHR '','' content) = Inr (u, content_string)"
    and "b64decode io content_string = Inr decoded"
    and "decode_utf8 io decoded = Inr table"
    and "genfromtxt io table = Inr r"
  shows "parse_file io content name =
           (case r of
              None \<Rightarrow> Inl (ImportError ''Problem reading the csv file.'')
            | Some d \<Rightarrow> Inr (Some d))"
  using assms by (simp add: parse_file_def parse_csv_def decode_csv_def split: option.split)

theorem parse_csv_guard_witness:
  "parse_file demo_codecs ''data:text/csv;base64,Cg=='' ''blank.csv'' = Inr (Some [])"
  using parse_csv_guard [where io = demo_codecs and name = "''blank.csv''"
      and content = "''data:text/csv;base64,Cg==''" and u = "''data:text/csv;base64''"
      and content_string = "''Cg==''" and decoded = "[CHR 0x0A]" and table = "[CHR 0x0A]"
      and r = "Some []"]
  by (simp add: demo_codecs_def demo_suffix_def unpack2_def)

subsection \<open>The split of the content descriptor\<close>

lemma py_split_not_Nil: "py_split c s \<noteq> []"
  by (induction s) (auto split: list.split)

lemma length_py_split: "length (py_split c s) = Suc (count_list s c)"
  by (induction s) (auto split: list.split simp: py_split_not_Nil)

lemma py_split_no_sep: "count_list s c = 0 \<Longrightarrow> py_split c s = [s]"
  by (induction s) (auto split: list.split if_splits)

lemma py_split_one_sep:
  "count_list s c = 1 \<Longrightarrow>
     py_split c s = [takeWhile (\<lambda>x. x \<noteq> c) s, tl (dropWhile (\<lambda>x. x \<noteq> c) s)]"
  by (induction s) (auto split: list.split if_splits simp: py_split_no_sep)

lemma unpack2_py_split:
  "unpack2 (py_split c s) =
     (if count_list s c = 1 then Inr (split_first c s)
      else if count_list s c = 0
        then Inl (ValueError ''not enough values to unpack (expected 2, got 1)'')
        else Inl (ValueError ''too many values to unpack (expected 2)''))"
proof -
  consider "count_list s c = 0" | "count_list s c = 1" | "2 \<le> count_list s c"
    by linarith
  then show ?thesis
  proof cases
    case 1
    then show ?thesis by (simp add: py_split_no_sep unpack2_def)
  next
    case 2
    then show ?thesis by (simp add: py_split_one_sep unpack2_def split_first_def)
  next
    case 3
    then have "3 \<le> length (py_split c s)" by (simp add: length_py_split)
    then obtain a b d rest where "py_split c s = a # b # d # rest"
      by (auto simp: numeral_3_eq_3 Suc_le_length_iff)
    with 3 show ?thesis by (simp add: unpack2_def)
  qed
qed

text \<open>
  C8, as stated, fails for a descriptor with two commas: the source splits at every comma
  and unpacks exactly two parts, so the upload ends in a ValueError, while the text after
  the first comma would have decoded.
\<close>

theorem descriptor_two_commas_counterexample:
  "parse_file demo_codecs ''data:application/octet-stream;base64,dH,dv'' ''scan.mat''
     \<noteq> decode_mat demo_codecs
          (snd (split_first CHR '','' ''data:application/octet-stream;base64,dH,dv''))"
  by (simp add: parse_file_def parse_mat_def decode_mat_def demo_codecs_def demo_suffix_def
      unpack2_def split_first_def)

text \<open>
  C8, amended. For a descriptor with exactly one comma, the ingestor splits it at that comma
  and decodes the text after it, in the \<^verbatim>\<open>.mat\<close> branch and in the \<^verbatim>\<open>.csv\<close> branch. A
  descriptor with no comma, or with more than one, is rejected with a ValueError before
  anything is decoded.
\<close>

theorem descriptor_single_comma:
  "parse_mat io content =
     (if count_list content CHR '','' = 1
      then decode_mat io (snd (split_first CHR '','' content))
      else if count_list content CHR '','' = 0
        then Inl (ValueError ''not enough values to unpack (expected 2, got 1)'')
        else Inl (ValueError ''too many values to unpack (expected 2)''))
   \<and> parse_csv io content =
     (if count_list content CHR '','' = 1
      then decode_csv io (snd (split_first CHR '','' content))
      else if count_list content CHR '','' = 0
        then Inl (ValueError ''not enough values to unpack (expected 2, got 1)'')
        else Inl (ValueError ''too many values to unpack (expected 2)''))"
  by (simp add: parse_mat_def parse_csv_def unpack2_py_split split_first_def)

section \<open>Properties of the float arithmetic\<close>

subsection \<open>The binary exponent\<close>

lemma two_powi_pos: "0 < (2::rat) powi k"
  by (simp add: zero_less_power_int)

lemma two_powi_mono: "a \<le> b \<Longrightarrow> (2::rat) powi a \<le> 2 powi b"
  by (simp add: power_int_increasing)

lemma two_powi_add: "(2::rat) powi (a + b) = 2 powi a * 2 powi b"
  by (simp add: power_int_add)

lemma binexp_bounds:
  assumes "x \<noteq> 0"
  shows "2 powi (binexp x) \<le> \<bar>x\<bar> \<and> \<bar>x\<bar> < 2 powi (binexp x + 1)"
proof -
  obtain p q where pq: "quotient_of \<bar>x\<bar> = (p, q)" by fastforce
  have q: "0 < q" using quotient_of_denom_pos [OF pq] .
  have x: "\<bar>x\<bar> = of_int p / of_int q" using quotient_of_div [OF pq] .
  have p: "0 < p"
  proof (rule ccontr)
    assume "\<not> 0 < p"
    then have "of_int p / (of_int q :: rat) \<le> 0"
      using q by (simp add: divide_le_0_iff)
    with x assms show False by simp
  qed
  define bp where "bp = floorlog 2 (nat p)"
  define bq where "bq = floorlog 2 (nat q)"
  define k where "k = int bp - int bq"
  have bp: "2 ^ (bp - 1) \<le> nat p" "nat p < 2 ^ bp"
    using floorlog_bounds [of "nat p" 2] p by (simp_all add: bp_def)
  have bq: "2 ^ (bq - 1) \<le> nat q" "nat q < 2 ^ bq"
    using floorlog_bounds [of "nat q" 2] q by (simp_all add: bq_def)
  have "bp \<noteq> 0" using p by (simp add: bp_def floorlog_eq_zero_iff)
  then have bp_pos: "0 < bp" by simp
  have "bq \<noteq> 0" using q by (simp add: bq_def floorlog_eq_zero_iff)
  then have bq_pos: "0 < bq" by simp
  have p_lo: "(2::rat) powi (int bp - 1) \<le> of_int p"
  proof -
    have "(2::rat) ^ (bp - 1) \<le> of_nat (nat p)"
      using bp(1) by (metis of_nat_le_iff of_nat_numeral of_nat_power)
    moreover have "(2::rat) powi (int bp - 1) = 2 ^ (bp - 1)"
      using bp_pos by (simp add: power_int_def nat_diff_distrib')
    ultimately show ?thesis using p by simp
  qed
  have p_hi: "of_int p < (2::rat) powi (int bp)"
  proof -
    have "of_nat (nat p) < (2::rat) ^ bp"
      using bp(2) by (metis of_nat_less_iff of_nat_numeral of_nat_power)
    then show ?thesis using p by (simp add: power_int_def)
  qed
  have q_lo: "(2::rat) powi (int bq - 1) \<le> of_int q"
  proof -
    have "(2::rat) ^ (bq - 1) \<le> of_nat (nat q)"
      using bq(1) by (metis of_nat_le_iff of_nat_numeral of_nat_power)
    moreover have "(2::rat) powi (int bq - 1) = 2 ^ (bq - 1)"
      using bq_pos by (simp add: power_int_def nat_diff_distrib')
    ultimately show ?thesis using q by simp
  qed
  have q_hi: "of_int q < (2::rat) powi (int bq)"
  proof -
    have "of_nat (nat q) < (2::rat) ^ bq"
      using bq(2) by (metis of_nat_less_iff of_nat_numeral of_nat_power)
    then show ?thesis using q by (simp add: power_int_def)
  qed
  have qr: "0 < (of_int q :: rat)" using q by simp
  have up: "\<bar>x\<bar> < 2 powi (k + 1)"
  proof -
    have "of_int p < (2::rat) powi (k + 1) * 2 powi (int bq - 1)"
      using p_hi by (simp add: k_def two_powi_add [symmetric])
    also have "\<dots> \<le> 2 powi (k + 1) * of_int q"
      using q_lo two_powi_pos [of "k + 1"] by (simp add: mult_left_mono)
    finally show ?thesis using qr by (simp add: x pos_divide_less_eq)
  qed
  have lo: "2 powi (k - 1) < \<bar>x\<bar>"
  proof -
    have "(2::rat) powi (k - 1) * of_int q < 2 powi (k - 1) * 2 powi (int bq)"
      using q_hi two_powi_pos [of "k - 1"] by (simp add: mult_strict_left_mono)
    also have "\<dots> = 2 powi (int bp - 1)"
    proof -
      have "k - 1 + int bq = int bp - 1" by (simp add: k_def)
      then show ?thesis by (simp only: two_powi_add [symmetric])
    qed
    also have "\<dots> \<le> of_int p" by (rule p_lo)
    finally show ?thesis using qr by (simp add: x pos_less_divide_eq)
  qed
  have be: "binexp x = (if 2 powi k \<le> \<bar>x\<bar> then k else k - 1)"
    by (simp add: binexp_def pq Let_def k_def bp_def bq_def)
  show ?thesis
  proof (cases "2 powi k \<le> \<bar>x\<bar>")
    case True
    then show ?thesis using up be by simp
  next
    case False
    then have "\<bar>x\<bar> < 2 powi (k - 1 + 1)" by simp
    then show ?thesis using lo be False by simp
  qed
qed

lemma binexp_unique:
  assumes "2 powi e \<le> \<bar>x\<bar>" and "\<bar>x\<bar> < 2 powi (e + 1)"
  shows "binexp x = e"
proof -
  have "x \<noteq> 0"
  proof
    assume "x = 0"
    with assms(1) have "2 powi e \<le> (0::rat)" by simp
    with two_powi_pos [of e] show False by linarith
  qed
  then have b: "2 powi (binexp x) \<le> \<bar>x\<bar>" "\<bar>x\<bar> < 2 powi (binexp x + 1)"
    using binexp_bounds by blast+
  have "\<not> binexp x < e"
  proof
    assume "binexp x < e"
    then have "(2::rat) powi (binexp x + 1) \<le> 2 powi e" by (simp add: two_powi_mono)
    with b(2) assms(1) show False by simp
  qed
  moreover have "\<not> e < binexp x"
  proof
    assume "e < binexp x"
    then have "(2::rat) powi (e + 1) \<le> 2 powi (binexp x)" by (simp add: two_powi_mono)
    with b(1) assms(2) show False by simp
  qed
  ultimately show ?thesis by simp
qed

subsection \<open>Rounding\<close>

lemma round_half_even_of_int: "round_half_even (of_int m) = m"
  by (simp add: round_half_even_def)

lemma round_half_even_cases:
  "round_half_even x = \<lfloor>x\<rfloor> \<or> round_half_even x = \<lfloor>x\<rfloor> + 1"
  by (simp add: round_half_even_def Let_def)

lemma round_half_even_mono:
  assumes "x \<le> y"
  shows "round_half_even x \<le> round_half_even y"
proof -
  have fg: "\<lfloor>x\<rfloor> \<le> \<lfloor>y\<rfloor>" using assms by (rule floor_mono)
  show ?thesis
  proof (cases "\<lfloor>x\<rfloor> = \<lfloor>y\<rfloor>")
    case True
    then have "x - of_int \<lfloor>x\<rfloor> \<le> y - of_int \<lfloor>y\<rfloor>" using assms by simp
    then show ?thesis using True by (auto simp: round_half_even_def Let_def)
  next
    case False
    then have "\<lfloor>x\<rfloor> + 1 \<le> \<lfloor>y\<rfloor>" using fg by simp
    moreover have "round_half_even x \<le> \<lfloor>x\<rfloor> + 1"
      using round_half_even_cases [of x] by auto
    moreover have "\<lfloor>y\<rfloor> \<le> round_half_even y"
      using round_half_even_cases [of y] by auto
    ultimately show ?thesis by linarith
  qed
qed

lemma round_half_even_nearest:
  assumes "of_int m - 1 / 2 < x" and "x < of_int m + 1 / 2"
  shows "round_half_even x = m"
proof (cases "of_int m \<le> x")
  case True
  then have "\<lfloor>x\<rfloor> = m" using assms(2) by (intro floor_unique) auto
  then show ?thesis using assms(2) by (simp add: round_half_even_def Let_def)
next
  case False
  then have "\<lfloor>x\<rfloor> = m - 1" using assms(1) by (intro floor_unique) auto
  then show ?thesis using assms(1) by (simp add: round_half_even_def Let_def)
qed

lemma quantum_pos: "0 < quantum x"
  by (simp add: quantum_def two_powi_pos)

lemma fl_exact:
  assumes "x = of_int k * quantum x"
  shows "fl x = x"
proof (cases "x = 0")
  case True
  then show ?thesis by (simp add: fl_def)
next
  case False
  have "x / quantum x = of_int k"
    using assms quantum_pos [of x] by (metis less_irrefl nonzero_mult_div_cancel_right)
  then show ?thesis using assms False by (simp add: fl_def round_half_even_of_int)
qed

lemma fl_certificate:
  assumes "2 powi e \<le> \<bar>x\<bar>" and "\<bar>x\<bar> < 2 powi (e + 1)" and "- 1022 \<le> e"
    and "of_int m - 1 / 2 < x / 2 powi (e - 52)" and "x / 2 powi (e - 52) < of_int m + 1 / 2"
  shows "fl x = of_int m * 2 powi (e - 52)"
proof -
  have e: "binexp x = e" using assms(1,2) by (rule binexp_unique)
  have "x \<noteq> 0"
  proof
    assume "x = 0"
    with assms(1) have "2 powi e \<le> (0::rat)" by simp
    with two_powi_pos [of e] show False by linarith
  qed
  moreover have "quantum x = 2 powi (e - 52)" using e assms(3) by (simp add: quantum_def)
  ultimately show ?thesis
    using round_half_even_nearest [OF assms(4,5)] by (simp add: fl_def)
qed

lemma fl_nonneg: "0 \<le> x \<Longrightarrow> 0 \<le> fl x"
proof -
  assume "0 \<le> x"
  then have "0 \<le> x / quantum x" using quantum_pos [of x] by simp
  then have "round_half_even 0 \<le> round_half_even (x / quantum x)"
    by (rule round_half_even_mono)
  then have "0 \<le> round_half_even (x / quantum x)"
    using round_half_even_of_int [of 0] by simp
  then show ?thesis using quantum_pos [of x] by (simp add: fl_def)
qed

lemma fl_upper:
  assumes "0 < x"
  shows "fl x \<le> 2 powi (max (binexp x) (- 1022) + 1)"
proof -
  define m where "m = max (binexp x) (- 1022)"
  have q: "quantum x = 2 powi (m - 52)" by (simp add: quantum_def m_def)
  have "x < 2 powi (binexp x + 1)" using binexp_bounds [of x] assms by simp
  also have "\<dots> \<le> 2 powi (m + 1)" by (rule two_powi_mono) (simp add: m_def)
  also have "\<dots> = 2 powi 53 * 2 powi (m - 52)"
  proof -
    have "m + 1 = 53 + (m - 52)" by simp
    then show ?thesis by (simp only: two_powi_add)
  qed
  finally have "x / quantum x \<le> 2 powi 53"
    using two_powi_pos [of "m - 52"] by (simp add: q pos_divide_le_eq)
  then have "round_half_even (x / quantum x) \<le> round_half_even (of_int (2 ^ 53))"
    by (intro round_half_even_mono) simp
  then have "round_half_even (x / quantum x) \<le> 2 ^ 53"
    by (simp only: round_half_even_of_int)
  then have "(of_int (round_half_even (x / quantum x)) :: rat) \<le> of_int (2 ^ 53)"
    by (simp only: of_int_le_iff)
  then have "fl x \<le> 2 powi 53 * 2 powi (m - 52)"
    using assms two_powi_pos [of "m - 52"] by (simp add: fl_def q mult_right_mono)
  also have "\<dots> = 2 powi (m + 1)"
  proof -
    have "m + 1 = 53 + (m - 52)" by simp
    then show ?thesis by (simp only: two_powi_add)
  qed
  finally show ?thesis by (simp add: m_def)
qed

lemma fl_lower:
  assumes "0 < x" and "- 1022 \<le> binexp x"
  shows "2 powi (binexp x) \<le> fl x"
proof -
  define e where "e = binexp x"
  have q: "quantum x = 2 powi (e - 52)" using assms(2) by (simp add: quantum_def e_def)
  have "2 powi 52 * 2 powi (e - 52) = (2::rat) powi e"
  proof -
    have "52 + (e - 52) = e" by simp
    then show ?thesis by (simp only: two_powi_add [symmetric])
  qed
  moreover have "2 powi e \<le> x" using binexp_bounds [of x] assms(1) by (simp add: e_def)
  ultimately have "2 powi 52 \<le> x / quantum x"
    using two_powi_pos [of "e - 52"] by (simp add: q pos_le_divide_eq)
  then have "round_half_even (of_int (2 ^ 52)) \<le> round_half_even (x / quantum x)"
    by (intro round_half_even_mono) simp
  then have "2 ^ 52 \<le> round_half_even (x / quantum x)"
    by (simp only: round_half_even_of_int)
  then have "(of_int (2 ^ 52) :: rat) \<le> of_int (round_half_even (x / quantum x))"
    by (simp only: of_int_le_iff)
  then have "2 powi 52 * 2 powi (e - 52) \<le> fl x"
    using assms(1) two_powi_pos [of "e - 52"] by (simp add: fl_def q mult_right_mono)
  also have "2 powi 52 * 2 powi (e - 52) = (2::rat) powi e" by fact
  finally show ?thesis by (simp add: e_def)
qed

lemma binexp_mono:
  assumes "0 < x" and "x \<le> y"
  shows "binexp x \<le> binexp y"
proof (rule ccontr)
  assume "\<not> binexp x \<le> binexp y"
  then have "binexp y + 1 \<le> binexp x" by simp
  then have "(2::rat) powi (binexp y + 1) \<le> 2 powi (binexp x)" by (rule two_powi_mono)
  moreover have "y < 2 powi (binexp y + 1)" using binexp_bounds [of y] assms by simp
  moreover have "2 powi (binexp x) \<le> x" using binexp_bounds [of x] assms by simp
  ultimately show False using assms(2) by linarith
qed

lemma fl_mono:
  assumes "0 \<le> x" and "x \<le> y"
  shows "fl x \<le> fl y"
proof (cases "x = 0")
  case True
  then show ?thesis using fl_nonneg [of y] assms by (simp add: fl_def)
next
  case False
  then have x: "0 < x" and y: "0 < y" using assms by simp_all
  define mx where "mx = max (binexp x) (- 1022)"
  define my where "my = max (binexp y) (- 1022)"
  have le: "binexp x \<le> binexp y" using x assms(2) by (rule binexp_mono)
  show ?thesis
  proof (cases "mx = my")
    case True
    then have q: "quantum x = quantum y" by (simp add: quantum_def mx_def my_def)
    have "x / quantum y \<le> y / quantum y"
      using assms(2) quantum_pos [of y] by (simp add: divide_right_mono)
    then have "round_half_even (x / quantum y) \<le> round_half_even (y / quantum y)"
      by (rule round_half_even_mono)
    then have "(of_int (round_half_even (x / quantum y)) :: rat)
                 \<le> of_int (round_half_even (y / quantum y))"
      by (simp only: of_int_le_iff)
    then show ?thesis
      using x y quantum_pos [of y] by (simp add: fl_def q mult_right_mono)
  next
    case False
    then have lt: "mx < my" using le unfolding mx_def my_def max_def by (simp split: if_splits)
    then have my: "my = binexp y" "- 1022 \<le> binexp y"
      unfolding mx_def my_def max_def by (simp_all split: if_splits)
    have "fl x \<le> 2 powi (mx + 1)" using fl_upper [OF x] by (simp add: mx_def)
    also have "\<dots> \<le> 2 powi (binexp y)" using lt my(1) by (intro two_powi_mono) simp
    also have "\<dots> \<le> fl y" using y my(2) by (rule fl_lower)
    finally show ?thesis .
  qed
qed

subsection \<open>Integers, and the conversion of the approximation degree\<close>

lemma fl_of_int:
  assumes "\<bar>i\<bar> < 2 ^ 53"
  shows "fl (of_int i) = of_int i"
proof (cases "i = 0")
  case True
  then show ?thesis by (simp add: fl_def)
next
  case False
  define x :: rat where "x = of_int i"
  define e where "e = binexp x"
  have x0: "x \<noteq> 0" using False by (simp add: x_def)
  have ax: "\<bar>x\<bar> = of_int \<bar>i\<bar>" by (simp add: x_def)
  have b: "2 powi e \<le> \<bar>x\<bar>" "\<bar>x\<bar> < 2 powi (e + 1)"
    using binexp_bounds [OF x0] by (simp_all add: e_def)
  have "1 \<le> \<bar>i\<bar>" using False by simp
  then have "(1::rat) \<le> \<bar>x\<bar>" unfolding ax by (simp only: of_int_1_le_iff)
  then have "(2::rat) powi 0 < 2 powi (e + 1)" using b(2) by simp
  then have e0: "0 \<le> e"
    using two_powi_mono [of "e + 1" 0] by (cases "0 \<le> e") auto
  have "\<bar>x\<bar> < 2 powi 53"
    unfolding ax using assms by (metis of_int_less_numeral_power_cancel_iff power_int_numeral)
  then have "(2::rat) powi e < 2 powi 53" using b(1) by simp
  then have e52: "e \<le> 52"
    using two_powi_mono [of 53 e] by (cases "e \<le> 52") auto
  have q: "quantum x = 2 powi (e - 52)" using e0 by (simp add: quantum_def e_def)
  have "(2::rat) ^ nat (52 - e) * 2 powi (e - 52) = 1"
  proof -
    have "(2::rat) ^ nat (52 - e) = 2 powi (52 - e)" using e52 by (simp add: power_int_def)
    moreover have "(2::rat) powi (52 - e) * 2 powi (e - 52) = 2 powi 0"
      by (simp only: two_powi_add [symmetric]) simp
    ultimately show ?thesis by simp
  qed
  then have "x = of_int (i * 2 ^ nat (52 - e)) * quantum x"
    unfolding q by (simp add: x_def mult.assoc)
  then have "fl x = x" by (rule fl_exact)
  then show ?thesis by (simp add: x_def)
qed

lemma fl_zero: "fl 0 = 0"
  by (simp add: fl_def)

lemma fl_one: "fl 1 = 1"
  using fl_of_int [of 1] by simp

lemma fl_of_nat: "n < 2 ^ 53 \<Longrightarrow> fl (of_nat n) = of_nat n"
  using fl_of_int [of "int n"] by simp

lemma to_double_bounded: "0 \<le> x \<Longrightarrow> fl x \<le> 2 ^ 53 \<Longrightarrow> to_double x = Some (fl x)"
proof -
  assume "0 \<le> x" and "fl x \<le> 2 ^ 53"
  moreover have "0 \<le> fl x" using \<open>0 \<le> x\<close> by (rule fl_nonneg)
  moreover have "(2::rat) ^ 53 < 2 ^ 1024" by simp
  ultimately have "\<bar>fl x\<bar> < 2 ^ 1024" by linarith
  then show ?thesis by (simp add: to_double_def)
qed

lemma no_modes_eq:
  assumes "0 \<le> d" and "d \<le> 100" and "n < 2 ^ 53"
  shows "no_modes d n = Inr \<lfloor>fl (fl (of_int d / 100) * of_nat n)\<rfloor>"
proof -
  define q where "q = fl (of_int d / 100)"
  define p where "p = fl (q * of_nat n)"
  have d: "fl (of_int d) = of_int d" using assms(1,2) by (intro fl_of_int) simp
  have n: "fl (of_nat n) = of_nat n" using assms(3) by (rule fl_of_nat)
  have n53: "(of_nat n :: rat) \<le> 2 ^ 53"
    using assms(3) by (metis less_imp_le of_nat_le_iff of_nat_numeral of_nat_power)
  have q0: "0 \<le> q" unfolding q_def using assms(1) by (intro fl_nonneg) simp
  have "q \<le> fl 1" unfolding q_def using assms(1,2) by (intro fl_mono) simp_all
  then have q1: "q \<le> 1" by (simp add: fl_one)
  have p0: "0 \<le> p" unfolding p_def using q0 by (intro fl_nonneg) simp
  have "q * of_nat n \<le> 1 * of_nat n" using q1 by (intro mult_right_mono) simp_all
  then have "p \<le> fl (of_nat n)" unfolding p_def using q0 by (intro fl_mono) simp_all
  then have pn: "p \<le> 2 ^ 53" using n n53 by simp
  have t1: "to_double (of_int d) = Some (of_int d)"
    using to_double_bounded [of "of_int d"] assms(1,2) d by simp
  have t2: "to_double (of_nat n) = Some (of_nat n)"
    using to_double_bounded [of "of_nat n"] n n53 by simp
  have t3: "to_double (of_int d / 100) = Some q"
    using to_double_bounded [of "of_int d / 100"] assms(1) q1 by (simp add: q_def)
  have t4: "to_double (q * of_nat n) = Some p"
    using to_double_bounded [of "q * of_nat n"] q0 pn by (simp add: p_def)
  have "no_modes d n = Inr \<lfloor>p\<rfloor>"
    using p0 by (simp add: no_modes_def t1 t2 t3 t4 py_int_def)
  then show ?thesis by (simp add: p_def q_def)
qed

lemma no_modes_mono:
  assumes "0 \<le> d1" and "d1 \<le> d2" and "d2 \<le> 100" and "n < 2 ^ 53"
  shows "\<lfloor>fl (fl (of_int d1 / 100) * of_nat n)\<rfloor> \<le> \<lfloor>fl (fl (of_int d2 / 100) * of_nat n)\<rfloor>"
proof -
  have a: "fl (of_int d1 / 100) \<le> fl (of_int d2 / 100)"
    using assms(1,2) by (intro fl_mono) simp_all
  have b: "0 \<le> fl (of_int d1 / 100)" using assms(1) by (intro fl_nonneg) simp
  have c: "fl (of_int d1 / 100) * of_nat n \<le> fl (of_int d2 / 100) * of_nat n"
    using a by (simp add: mult_right_mono)
  have d: "0 \<le> fl (of_int d1 / 100) * of_nat n" using b by simp
  have "fl (fl (of_int d1 / 100) * of_nat n) \<le> fl (fl (of_int d2 / 100) * of_nat n)"
    using d c by (rule fl_mono)
  then show ?thesis by (rule floor_mono)
qed

lemma fl_29_100: "fl (29 / 100) = 5224175567749775 * 2 powi (- 54)"
proof -
  have "fl (29 / 100) = of_int 5224175567749775 * 2 powi (- 2 - 52)"
    by (rule fl_certificate) simp_all
  then show ?thesis by simp
qed

lemma fl_29_product:
  "fl (5224175567749775 * 2 powi (- 54) * 100) = 8162774324609023 * 2 powi (- 48)"
proof -
  have "fl (5224175567749775 * 2 powi (- 54) * 100)
          = of_int 8162774324609023 * 2 powi (4 - 52)"
    by (rule fl_certificate) simp_all
  then show ?thesis by simp
qed

lemma no_modes_29_100: "no_modes 29 100 = Inr 28"
proof -
  have "no_modes 29 100 = Inr \<lfloor>fl (fl (of_int 29 / 100) * of_nat 100)\<rfloor>"
    by (rule no_modes_eq) simp_all
  also have "fl (fl (of_int 29 / 100) * of_nat 100) = 8162774324609023 * 2 powi (- 48)"
    by (simp only: of_int_numeral of_nat_numeral fl_29_100 fl_29_product)
  also have "\<lfloor>(8162774324609023 * 2 powi (- 48) :: rat)\<rfloor> = 28"
    by (intro floor_unique) simp_all
  finally show ?thesis .
qed

lemma py_float_sampling_time:
  "py_float (Some (72 / 100)) = Inr (6485183463413514 * 2 powi (- 53))"
proof -
  have "fl (72 / 100) = of_int 6485183463413514 * 2 powi (- 1 - 52)"
    by (rule fl_certificate) simp_all
  then have "fl (72 / 100) = 6485183463413514 * 2 powi (- 53)" by simp
  then show ?thesis by (simp add: py_float_def to_double_def)
qed

subsection \<open>The distance of the conversion from the exact quotient\<close>

lemma round_half_even_error: "\<bar>of_int (round_half_even x) - x\<bar> \<le> 1 / 2"
proof -
  have "of_int \<lfloor>x\<rfloor> \<le> x" "x < of_int \<lfloor>x\<rfloor> + 1" by linarith+
  then show ?thesis by (auto simp: round_half_even_def Let_def abs_le_iff)
qed

lemma fl_error: "\<bar>fl x - x\<bar> \<le> quantum x / 2"
proof (cases "x = 0")
  case True
  then show ?thesis using quantum_pos [of x] by (simp add: fl_def)
next
  case False
  define m where "m = round_half_even (x / quantum x)"
  have q: "0 < quantum x" by (rule quantum_pos)
  have "\<bar>of_int m - x / quantum x\<bar> \<le> 1 / 2"
    unfolding m_def by (rule round_half_even_error)
  then have "\<bar>of_int m - x / quantum x\<bar> * quantum x \<le> 1 / 2 * quantum x"
    using q by (intro mult_right_mono) simp_all
  moreover have "\<bar>of_int m - x / quantum x\<bar> * quantum x = \<bar>of_int m * quantum x - x\<bar>"
  proof -
    have "\<bar>of_int m - x / quantum x\<bar> * quantum x
            = \<bar>(of_int m - x / quantum x) * quantum x\<bar>"
      using q by (simp add: abs_mult)
    also have "(of_int m - x / quantum x) * quantum x = of_int m * quantum x - x"
      using q by (simp add: algebra_simps)
    finally show ?thesis .
  qed
  ultimately show ?thesis using False by (simp add: fl_def m_def)
qed

lemma fl_relative_error:
  assumes "0 < x" and "- 1022 \<le> binexp x"
  shows "\<bar>fl x - x\<bar> \<le> x * 2 powi (- 53)"
proof -
  have "quantum x = 2 powi (binexp x) * 2 powi (- 52)"
  proof -
    have "binexp x - 52 = binexp x + (- 52)" by simp
    then show ?thesis using assms(2) by (simp only: quantum_def max_absorb1 two_powi_add)
  qed
  moreover have "2 powi (binexp x) \<le> x" using binexp_bounds [of x] assms(1) by simp
  ultimately have "quantum x \<le> x * 2 powi (- 52)"
    using two_powi_pos [of "- 52"] by (simp add: mult_right_mono)
  then have "quantum x / 2 \<le> x * 2 powi (- 52) / 2" by simp
  also have "\<dots> = x * 2 powi (- 53)" by simp
  finally show ?thesis using fl_error [of x] by linarith
qed

lemma binexp_lower:
  assumes "2 powi e \<le> x"
  shows "e \<le> binexp x"
proof (rule ccontr)
  assume "\<not> e \<le> binexp x"
  then have "binexp x + 1 \<le> e" by simp
  then have "(2::rat) powi (binexp x + 1) \<le> 2 powi e" by (rule two_powi_mono)
  moreover have "0 < x" using assms two_powi_pos [of e] by linarith
  then have "x < 2 powi (binexp x + 1)" using binexp_bounds [of x] by simp
  ultimately show False using assms by linarith
qed

lemma no_modes_error:
  assumes "1 \<le> d" and "d \<le> 100" and "1 \<le> n" and "n < 2 ^ 44"
  shows "\<bar>fl (fl (of_int d / 100) * of_nat n) - of_int d * of_nat n / 100\<bar> < 1 / 100"
proof -
  define x :: rat where "x = of_int d / 100"
  define q where "q = fl x"
  define y where "y = q * of_nat n"
  define p where "p = fl y"
  define E :: rat where "E = of_int d * of_nat n / 100"
  define u :: rat where "u = 2 powi (- 53)"
  have u: "0 < u" "u \<le> 1" by (simp_all add: u_def)
  have n1: "(1::rat) \<le> of_nat n" using assms(3) by simp
  have x_lo: "2 powi (- 7) \<le> x" using assms(1) by (simp add: x_def)
  have x0: "0 < x" using assms(1) by (simp add: x_def)
  have x1: "x \<le> 1" using assms(2) by (simp add: x_def)
  have bx: "- 1022 \<le> binexp x" using binexp_lower [OF x_lo] by simp
  have qx: "\<bar>q - x\<bar> \<le> x * u" unfolding q_def u_def using x0 bx by (rule fl_relative_error)
  have q_lo: "2 powi (- 7) \<le> q"
  proof -
    have "(2::rat) powi (- 7) \<le> 2 powi (binexp x)"
      using binexp_lower [OF x_lo] by (rule two_powi_mono)
    also have "\<dots> \<le> q" unfolding q_def using x0 bx by (rule fl_lower)
    finally show ?thesis .
  qed
  have q0: "0 < q" using q_lo two_powi_pos [of "- 7"] by linarith
  have "q * 1 \<le> q * of_nat n" using q0 n1 by (intro mult_left_mono) simp_all
  then have "q \<le> y" unfolding y_def by (simp only: mult_1_right)
  then have y_lo: "2 powi (- 7) \<le> y" using q_lo by linarith
  have y0: "0 < y" using y_lo two_powi_pos [of "- 7"] by linarith
  have bey: "- 1022 \<le> binexp y" using binexp_lower [OF y_lo] by simp
  have py: "\<bar>p - y\<bar> \<le> y * u" unfolding p_def u_def using y0 bey by (rule fl_relative_error)
  have E: "E = x * of_nat n" by (simp add: E_def x_def)
  have E0: "0 < E" using x0 n1 by (simp add: E)
  have "\<bar>y - E\<bar> = \<bar>q - x\<bar> * of_nat n"
    by (simp add: y_def E abs_mult left_diff_distrib [symmetric])
  also have "\<dots> \<le> x * u * of_nat n" using qx by (intro mult_right_mono) simp_all
  also have "x * u * of_nat n = E * u" by (simp add: E mult_ac)
  finally have yE: "\<bar>y - E\<bar> \<le> E * u" .
  have "y \<le> E + E * u" using yE by linarith
  then have "y * u \<le> (E + E * u) * u" using u(1) by (intro mult_right_mono) simp_all
  also have "\<dots> \<le> (E + E * 1) * u"
    using u E0 by (intro mult_right_mono add_left_mono mult_left_mono) simp_all
  finally have "y * u \<le> 2 * E * u" by simp
  then have pE: "\<bar>p - E\<bar> \<le> 3 * E * u" using py yE by linarith
  have "E \<le> of_nat n"
  proof -
    have "x * of_nat n \<le> 1 * of_nat n" using x1 by (intro mult_right_mono) simp_all
    then show ?thesis by (simp add: E)
  qed
  moreover have "(of_nat n :: rat) < 2 ^ 44"
    using assms(4) by (metis of_nat_less_iff of_nat_numeral of_nat_power)
  ultimately have "E < 2 ^ 44" by linarith
  then have "E * u < 2 ^ 44 * u" using u(1) by (simp only: mult_less_cancel_right_pos)
  then have "\<bar>p - E\<bar> < 3 * 2 ^ 44 * u" using pE by linarith
  also have "\<dots> < 1 / 100" by (simp add: u_def)
  finally show ?thesis by (simp add: p_def y_def q_def x_def E_def)
qed

lemma no_modes_floor_bounds:
  assumes "0 \<le> d" and "d \<le> 100" and "n < 2 ^ 44"
  shows "d * int n div 100 - 1 \<le> \<lfloor>fl (fl (of_int d / 100) * of_nat n)\<rfloor>
       \<and> \<lfloor>fl (fl (of_int d / 100) * of_nat n)\<rfloor> \<le> d * int n div 100
       \<and> (\<not> 100 dvd d * int n \<longrightarrow>
            \<lfloor>fl (fl (of_int d / 100) * of_nat n)\<rfloor> = d * int n div 100)"
proof (cases "d = 0 \<or> n = 0")
  case True
  then have "fl (fl (of_int d / 100) * of_nat n) = 0" by (auto simp: fl_zero)
  moreover have "d * int n = 0" using True by auto
  ultimately show ?thesis by (simp only:) simp
next
  case False
  then have d1: "1 \<le> d" and n1: "1 \<le> n" using assms(1) by auto
  define p where "p = fl (fl (of_int d / 100) * of_nat n)"
  define N where "N = d * int n"
  define K where "K = N div 100"
  define r where "r = N mod 100"
  have r: "0 \<le> r" "r \<le> 99" by (simp_all add: r_def)
  have "N = 100 * K + r" by (simp add: K_def r_def)
  then have "(of_int N :: rat) = of_int (100 * K + r)" by (simp only:)
  then have N: "(of_int N :: rat) = 100 * of_int K + of_int r" by simp
  have "\<bar>p - of_int d * of_nat n / 100\<bar> < 1 / 100"
    unfolding p_def using d1 assms(2) n1 assms(3) by (rule no_modes_error)
  moreover have "of_int d * of_nat n = (of_int N :: rat)" by (simp add: N_def)
  ultimately have e: "\<bar>p - (100 * of_int K + of_int r) / 100\<bar> < 1 / 100"
    using N by simp
  have r0: "(0::rat) \<le> of_int r" and r99: "(of_int r :: rat) \<le> 99"
    using r by simp_all
  have up: "p < of_int (K + 1)" using e r99 by (simp add: abs_less_iff field_simps)
  have lo: "of_int (K - 1) < p" using e r0 by (simp add: abs_less_iff field_simps)
  have "\<lfloor>p\<rfloor> < K + 1" using up by (simp only: floor_less_iff)
  moreover have "K - 1 \<le> \<lfloor>p\<rfloor>" using lo by (simp only: le_floor_iff less_imp_le)
  moreover have "K \<le> \<lfloor>p\<rfloor>" if "\<not> 100 dvd N"
  proof -
    have "r \<noteq> 0" using that by (simp add: r_def dvd_eq_mod_eq_0)
    then have "1 \<le> r" using r(1) by simp
    then have "(1::rat) \<le> of_int r" by simp
    then have "of_int K < p" using e by (simp add: abs_less_iff field_simps)
    then show ?thesis by (simp only: le_floor_iff less_imp_le)
  qed
  ultimately show ?thesis by (auto simp: p_def N_def K_def)
qed

text \<open>
  C4, as stated, fails: the quotient and the product are rounded to binary64 before
  \<^verbatim>\<open>int\<close> truncates, so for degree 29 and size 100 the result is 28 and not
  \<open>\<lfloor>29 / 100 \<times> 100\<rfloor> = 29\<close>.
\<close>

theorem no_modes_floor_counterexample:
  "no_modes 29 100 \<noteq> Inr \<lfloor>(29 :: rat) / 100 * 100\<rfloor>"
  by (simp add: no_modes_29_100)

text \<open>
  C4, amended. For an integer degree in [0, 100] and an atlas size \<open>n\<close> below \<open>2\<^sup>4\<^sup>4\<close>, the
  conversion returns the truncation of the binary64 product of the binary64 quotient
  \<open>degree / 100\<close> and \<open>n\<close>. This is \<open>\<lfloor>degree \<times> n / 100\<rfloor>\<close> when \<open>degree \<times> n\<close> is not a
  multiple of 100, and that floor or one less when it is. The conversion is monotonically
  non-decreasing in the degree, it is 0 at degree 0 and it is exactly \<open>n\<close> at degree 100.
\<close>

theorem no_modes_properties:
  assumes "n < 2 ^ 44" and "0 \<le> d1" and "d1 \<le> d2" and "d2 \<le> 100"
  shows "no_modes 0 n = Inr 0
       \<and> no_modes 100 n = Inr (int n)
       \<and> no_modes d1 n = Inr \<lfloor>fl (fl (of_int d1 / 100) * of_nat n)\<rfloor>
       \<and> no_modes d2 n = Inr \<lfloor>fl (fl (of_int d2 / 100) * of_nat n)\<rfloor>
       \<and> \<lfloor>fl (fl (of_int d1 / 100) * of_nat n)\<rfloor> \<le> \<lfloor>fl (fl (of_int d2 / 100) * of_nat n)\<rfloor>
       \<and> d1 * int n div 100 - 1 \<le> \<lfloor>fl (fl (of_int d1 / 100) * of_nat n)\<rfloor>
       \<and> \<lfloor>fl (fl (of_int d1 / 100) * of_nat n)\<rfloor> \<le> d1 * int n div 100
       \<and> (\<not> 100 dvd d1 * int n \<longrightarrow>
            \<lfloor>fl (fl (of_int d1 / 100) * of_nat n)\<rfloor> = d1 * int n div 100)"
proof -
  have "(2::nat) ^ 44 \<le> 2 ^ 53" by simp
  then have n: "n < 2 ^ 53" using assms(1) by linarith
  have "no_modes 0 n = Inr \<lfloor>fl (fl (of_int 0 / 100) * of_nat n)\<rfloor>"
    using n by (intro no_modes_eq) simp_all
  then have zero: "no_modes 0 n = Inr 0" by (simp add: fl_zero)
  have "no_modes 100 n = Inr \<lfloor>fl (fl (of_int 100 / 100) * of_nat n)\<rfloor>"
    using n by (intro no_modes_eq) simp_all
  then have full: "no_modes 100 n = Inr (int n)"
    using fl_of_nat [OF n] by (simp add: fl_one)
  have one: "no_modes d1 n = Inr \<lfloor>fl (fl (of_int d1 / 100) * of_nat n)\<rfloor>"
    using assms n by (intro no_modes_eq) simp_all
  have two: "no_modes d2 n = Inr \<lfloor>fl (fl (of_int d2 / 100) * of_nat n)\<rfloor>"
    using assms n by (intro no_modes_eq) simp_all
  have d1: "d1 \<le> 100" using assms(3,4) by simp
  show ?thesis
    using zero full one two no_modes_mono [OF assms(2,3,4) n]
      no_modes_floor_bounds [OF assms(2) d1 assms(1)]
    by blast
qed

theorem no_modes_properties_witness:
  "no_modes 0 400 = Inr 0 \<and> no_modes 100 400 = Inr 400"
  using no_modes_properties [of 400 29 100] by simp

section \<open>Properties of progress\<close>




lemma floor_numeral_rat: "\<lfloor>numeral k :: rat\<rfloor> = numeral k"
  by simp




section \<open>The model run on the stand-in libraries\<close>

text \<open>
  Evaluations used by the concrete examples below: the default sampling time 0.72 as a
  float, the two demonstration files, and the conversion of the default approximation
  degree 5 for an atlas of 3 regions (\<^verbatim>\<open>0.05 * 3\<close> is a tie between two binary64 values and
  rounds to the even one, \<^verbatim>\<open>0.15000000000000002\<close>).
\<close>

lemma py_float_default:
  "py_float default_sampling_time = Inr (6485183463413514 * 2 powi (- 53))"
  unfolding default_sampling_time_def by (rule py_float_sampling_time)

lemma demo_nidmd_simps:
  "Decomposition demo_nidmd data t = Inr data"
  "dcp_atlas demo_nidmd (Some m # rest) = Some (length m)"
  "atlas_size demo_nidmd a = a"
  "run demo_nidmd d = Inr d"
  "df_columns demo_nidmd d = Inr (length d)"
  "compute_match demo_nidmd ref mg k = Inr (length mg, k, k)"
  "create_table demo_nidmd f = Inr f"
  by (simp_all add: demo_nidmd_def)

lemma demo_parse_scan:
  "parse_file demo_codecs ''data:application/octet-stream;base64,dHdv'' ''scan.mat''
     = Inr (Some [[5, 6], [7, 8]])"
  by (simp add: parse_file_def parse_mat_def decode_mat_def demo_codecs_def demo_suffix_def
      unpack2_def)

lemma demo_parse_rest:
  "parse_file demo_codecs ''data:application/octet-stream;base64,cmVzdA=='' ''rest.mat''
     = Inr (Some [[1, 2], [3, 4], [5, 6]])"
  by (simp add: parse_file_def parse_mat_def decode_mat_def demo_codecs_def demo_suffix_def
      unpack2_def)

lemma demo_parse_files_scan:
  "parse_files demo_codecs demo_nidmd s [''data:application/octet-stream;base64,dHdv'']
       (Some [''scan.mat'']) t
     = Inr (s\<lparr> atlas := Some 2 \<rparr>, [Some [[5, 6], [7, 8]]])"
  by (simp add: parse_files_def demo_parse_scan demo_nidmd_simps)

lemma demo_parse_files_rest:
  "parse_files demo_codecs demo_nidmd s [''data:application/octet-stream;base64,cmVzdA=='']
       (Some [''rest.mat'']) t
     = Inr (s\<lparr> atlas := Some 3 \<rparr>, [Some [[1, 2], [3, 4], [5, 6]]])"
  by (simp add: parse_files_def demo_parse_rest demo_nidmd_simps)

lemma round_half_even_tie:
  assumes "x = of_int m + 1 / 2"
  shows "round_half_even x = (if even m then m else m + 1)"
proof -
  have "\<lfloor>x\<rfloor> = m" using assms by (intro floor_unique) auto
  then show ?thesis using assms by (simp add: round_half_even_def Let_def)
qed

lemma fl_certificate_tie:
  assumes "2 powi e \<le> \<bar>x\<bar>" and "\<bar>x\<bar> < 2 powi (e + 1)" and "- 1022 \<le> e"
    and "x / 2 powi (e - 52) = of_int m + 1 / 2"
  shows "fl x = of_int (if even m then m else m + 1) * 2 powi (e - 52)"
proof -
  have e: "binexp x = e" using assms(1,2) by (rule binexp_unique)
  have "x \<noteq> 0"
  proof
    assume "x = 0"
    with assms(1) have "2 powi e \<le> (0::rat)" by simp
    with two_powi_pos [of e] show False by linarith
  qed
  moreover have "quantum x = 2 powi (e - 52)" using e assms(3) by (simp add: quantum_def)
  ultimately show ?thesis
    using round_half_even_tie [OF assms(4)] by (simp add: fl_def)
qed

lemma fl_5_100: "fl (5 / 100) = 7205759403792794 * 2 powi (- 57)"
proof -
  have "fl (5 / 100) = of_int 7205759403792794 * 2 powi (- 5 - 52)"
    by (rule fl_certificate) simp_all
  then show ?thesis by simp
qed

lemma fl_5_product:
  "fl (7205759403792794 * 2 powi (- 57) * 3) = 5404319552844596 * 2 powi (- 55)"
proof -
  have "fl (7205759403792794 * 2 powi (- 57) * 3)
          = of_int (if even (5404319552844595 :: int) then 5404319552844595
                    else 5404319552844595 + 1) * 2 powi (- 3 - 52)"
    by (rule fl_certificate_tie) simp_all
  then show ?thesis by simp
qed

lemma no_modes_5_3: "no_modes 5 3 = Inr 0"
proof -
  have "no_modes 5 3 = Inr \<lfloor>fl (fl (of_int 5 / 100) * of_nat 3)\<rfloor>"
    by (rule no_modes_eq) simp_all
  also have "fl (fl (of_int 5 / 100) * of_nat 3) = 5404319552844596 * 2 powi (- 55)"
    by (simp only: of_int_numeral of_nat_numeral fl_5_100 fl_5_product)
  also have "\<lfloor>(5404319552844596 * 2 powi (- 55) :: rat)\<rfloor> = 0"
    by (intro floor_unique) simp_all
  finally show ?thesis .
qed

lemma no_modes_5_Suc3: "no_modes 5 (Suc (Suc (Suc 0))) = Inr 0"
  using no_modes_5_3 by (simp only: numeral_3_eq_3)

lemma degree_fraction_eq:
  assumes "0 \<le> d" and "d < 2 ^ 53"
  shows "degree_fraction d = Inr (fl (of_int d / 100))"
    and "to_double (of_int d / 100) = Some (fl (of_int d / 100))"
    and "to_double (of_int d) = Some (of_int d)"
proof -
  have d: "fl (of_int d) = of_int d" using assms by (intro fl_of_int) simp
  have d53: "(of_int d :: rat) \<le> 2 ^ 53"
    using assms(2) by (metis less_imp_le of_int_le_numeral_power_cancel_iff)
  have d0: "(0 :: rat) \<le> of_int d" using assms(1) by simp
  show a: "to_double (of_int d) = Some (of_int d)"
    using to_double_bounded [OF d0] d d53 by simp
  have "(0 :: rat) \<le> of_int d / 100" and "(of_int d :: rat) / 100 \<le> of_int d"
    using d0 by simp_all
  then have "fl (of_int d / 100) \<le> fl (of_int d)" by (rule fl_mono)
  then have "fl (of_int d / 100) \<le> 2 ^ 53" using d d53 by simp
  then show "to_double (of_int d / 100) = Some (fl (of_int d / 100))"
    using d0 by (intro to_double_bounded) simp_all
  show "degree_fraction d = Inr (fl (of_int d / 100))"
    by (simp add: degree_fraction_def a)
qed

text \<open>
  The two steps of \<^verbatim>\<open>upload\<close> give \<open>no_modes\<close>, the expression
  \<^verbatim>\<open>int(approx_deg / 100.0 * size)\<close> as a whole.
\<close>

lemma no_modes_fraction:
  assumes "0 \<le> d" and "d < 2 ^ 53"
  shows "no_modes d n =
           (case degree_fraction d of Inl e \<Rightarrow> Inl e | Inr q \<Rightarrow> modes_of_fraction q n)"
  by (simp add: no_modes_def modes_of_fraction_def degree_fraction_eq [OF assms]
      split: option.splits)

lemma modes_of_fraction_5_3:
  "degree_fraction 5 = Inr (fl (1 / 20))"
  "modes_of_fraction (fl (1 / 20)) (Suc (Suc (Suc 0))) = Inr 0"
proof -
  have r: "(5 :: rat) / 100 = 1 / 20" by simp
  have a: "degree_fraction 5 = Inr (fl (5 / 100))"
    using degree_fraction_eq(1) [of 5] by simp
  then show "degree_fraction 5 = Inr (fl (1 / 20))" by (simp only: r)
  have "no_modes 5 (Suc (Suc (Suc 0))) = modes_of_fraction (fl (5 / 100)) (Suc (Suc (Suc 0)))"
    using no_modes_fraction [of 5 "Suc (Suc (Suc 0))"] by (simp only: a) simp
  then show "modes_of_fraction (fl (1 / 20)) (Suc (Suc (Suc 0))) = Inr 0"
    by (simp only: no_modes_5_Suc3 r)
qed

lemma demo_upload_comparison:
  "upload demo_codecs demo_nidmd init_session
       (Some [''data:application/octet-stream;base64,dHdv''])
       (Some [''data:application/octet-stream;base64,cmVzdA==''])
       default_sampling_time (Some [''scan.mat'']) (Some [''rest.mat'']) (Some 2) (Some 5)
     = Inr (init_session\<lparr> dcp1 := Some [Some [[5, 6], [7, 8]]],
                dcp2 := Some [Some [[1, 2], [3, 4], [5, 6]]], atlas := Some 3 \<rparr>,
            \<lparr> selected1 = Some ''scan.mat'', selected2 = Some ''rest.mat'',
               tab1 = Some 1, tab2 = Some 1, disabled = False,
               progress1_style = Hide, progress2_style = Hide, message = [],
               alert_style = Hide \<rparr>)"
  by (simp add: upload_def upload_group1_def upload_group2_def upload_comparison_def
      py_float_default demo_parse_files_scan demo_parse_files_rest indent_def
      init_session_def demo_nidmd_simps)

lemma demo_upload_match_after_comparison:
  "upload demo_codecs demo_nidmd
       (init_session\<lparr> dcp1 := Some [Some [[5, 6], [7, 8]]],
                dcp2 := Some [Some [[1, 2], [3, 4], [5, 6]]], atlas := Some 3 \<rparr>)
       (Some [''data:application/octet-stream;base64,dHdv''])
       (Some [''data:application/octet-stream;base64,cmVzdA==''])
       default_sampling_time (Some [''scan.mat'']) (Some [''rest.mat'']) (Some 3) (Some 5)
     = Inr (init_session\<lparr> dcp1 := Some [Some [[5, 6], [7, 8]]],
                dcp2 := Some [Some [[1, 2], [3, 4], [5, 6]]],
                match_group := Some [Some [[1, 2], [3, 4], [5, 6]]],
                match_df := Some 1, match_x := Some 0, match_y := Some 0,
                atlas := Some 3 \<rparr>,
            \<lparr> selected1 = Some ''scan.mat'', selected2 = Some ''rest.mat'',
               tab1 = Some 1, tab2 = Some 1, disabled = False,
               progress1_style = Hide, progress2_style = Hide, message = [],
               alert_style = Hide \<rparr>)"
  by (simp add: upload_def upload_group1_def upload_group2_def upload_match_def
      py_float_default demo_parse_files_scan demo_parse_files_rest indent_def
      init_session_def demo_nidmd_simps modes_of_fraction_5_3)

section \<open>Properties of the batch parse and of upload\<close>

lemma parse_files_Inr:
  "parse_files io lib s contents files t = Inr (s', dcp) \<Longrightarrow> s' = s\<lparr> atlas := dcp_atlas lib dcp \<rparr>"
  by (auto simp: parse_files_def split: option.splits sum.splits)

lemma upload_group2_atlas:
  assumes "parse_files io lib s c2 names2 t = Inr (s1, dcp)"
    and "py_float time = Inr t"
    and "dcp2 s = None \<or> match_group s = None"
    and "setting = Some 2 \<or> setting = Some 3"
  shows "atlas (fst (upload_group2 io lib s (Some c2) names2 time setting approx_deg))
           = dcp_atlas lib dcp"
proof -
  have s1: "s1 = s\<lparr> atlas := dcp_atlas lib dcp \<rparr>"
    using assms(1) by (rule parse_files_Inr)
  have c: "atlas (fst (upload_comparison io lib s c2 names2 time)) = dcp_atlas lib dcp"
    by (simp add: upload_comparison_def assms(1,2) s1 Let_def split: sum.splits)
  have m: "atlas (fst (upload_match io lib s c2 names2 time approx_deg)) = dcp_atlas lib dcp"
    by (simp add: upload_match_def assms(1,2) s1 Let_def
        split: sum.splits option.splits prod.splits)
  show ?thesis using assms(3,4) by (auto simp: upload_group2_def c m)
qed

text \<open>
  C10. A parse that succeeds returns the session with the atlas replaced by the atlas of
  the decomposition it built, and with nothing else changed. In \<^verbatim>\<open>upload\<close> this holds
  for the second slot as for the first: when the statements of the first slot have run
  through, the setting is Comparison or Mode Matching and the parse of the second batch
  succeeds, the session that \<^verbatim>\<open>upload\<close> leaves has the atlas of the second group's
  decomposition, whatever happens after the parse.
\<close>

theorem parse_files_overwrites_atlas:
  assumes "upload_group1 io lib s contents1 names1 time = (sg, Inr t1)"
    and "py_float time = Inr t"
    and "parse_files io lib sg c2 names2 t = Inr (s1, dcp)"
    and "dcp2 sg = None \<or> match_group sg = None"
    and "setting = Some 2 \<or> setting = Some 3"
    and "upload io lib s contents1 (Some c2) time names1 names2 setting approx_deg
           = Inr (s', out)"
  shows "s1 = sg\<lparr> atlas := dcp_atlas lib dcp \<rparr> \<and> atlas s' = dcp_atlas lib dcp"
proof -
  have "s' = fst (upload_group2 io lib sg (Some c2) names2 time setting approx_deg)"
    using assms(6) by (auto simp: upload_def assms(1) Let_def split: prod.splits sum.splits)
  then have "atlas s' = dcp_atlas lib dcp"
    using upload_group2_atlas [OF assms(3,2,4,5)] by simp
  then show ?thesis using parse_files_Inr [OF assms(3)] by simp
qed

theorem parse_files_overwrites_atlas_witness:
  "(case upload demo_codecs demo_nidmd init_session
            (Some [''data:application/octet-stream;base64,dHdv''])
            (Some [''data:application/octet-stream;base64,cmVzdA==''])
            default_sampling_time (Some [''scan.mat'']) (Some [''rest.mat''])
            (Some 2) (Some 5) of
      Inl e \<Rightarrow> None
    | Inr (s', out) \<Rightarrow> atlas s') = dcp_atlas demo_nidmd [Some [[1, 2], [3, 4], [5, 6]]]
   \<and> dcp_atlas demo_nidmd [Some [[1, 2], [3, 4], [5, 6]]] = Some 3
   \<and> dcp_atlas demo_nidmd [Some [[5, 6], [7, 8]]] = Some 2"
proof -
  define sg where
    "sg = (init_session :: (int list list option list, nat, nat, int) session)
            \<lparr> atlas := Some 2, dcp1 := Some [Some [[5, 6], [7, 8]]] \<rparr>"
  have p1: "upload_group1 demo_codecs demo_nidmd init_session
              (Some [''data:application/octet-stream;base64,dHdv''])
              (Some [''scan.mat'']) default_sampling_time = (sg, Inr (Some 1))"
    by (simp add: upload_group1_def py_float_default demo_parse_files_scan demo_nidmd_simps
        sg_def)
  have p3: "parse_files demo_codecs demo_nidmd sg
              [''data:application/octet-stream;base64,cmVzdA==''] (Some [''rest.mat''])
              (6485183463413514 * 2 powi (- 53))
            = Inr (sg\<lparr> atlas := Some 3 \<rparr>, [Some [[1, 2], [3, 4], [5, 6]]])"
    by (rule demo_parse_files_rest)
  have p4: "dcp2 sg = None \<or> match_group sg = None"
    by (simp add: sg_def init_session_def)
  have p5: "Some (2 :: int) = Some 2 \<or> Some (2 :: int) = Some 3"
    by simp
  note p6 = demo_upload_comparison
  have "atlas (init_session\<lparr> dcp1 := Some [Some [[5, 6], [7, 8]]],
                 dcp2 := Some [Some [[1, 2], [3, 4], [5, 6 :: int]]],
                 atlas := Some (3 :: nat),
                 match_df := None :: nat option, match_x := None :: int option \<rparr>)
          = dcp_atlas demo_nidmd [Some [[1, 2], [3, 4], [5, 6]]]"
    using parse_files_overwrites_atlas [OF p1 py_float_default p3 p4 p5 p6] by simp
  then show ?thesis by (simp add: p6 demo_nidmd_simps)
qed

text \<open>
  C2. What \<^verbatim>\<open>upload\<close> does with a match group that arrives while the reference is absent
  (no first batch, Mode Matching, the batch parses and runs): the message is
  "Please upload Reference group before Match group." and the alert is shown, but
  \<^verbatim>\<open>match_group\<close> now holds the decomposition just built and the atlas is that
  decomposition's. The attribute is assigned before the reference is tested, so the failed
  upload does change the slot.
\<close>

theorem upload_match_without_reference:
  assumes "dcp1 s = None" and "dcp2 s = None \<or> match_group s = None"
    and "py_float time = Inr t"
    and "parse_files io lib s c2 names2 t = Inr (s1, mg)"
    and "run lib mg = Inr mg'"
  shows "upload io lib s None (Some c2) time names1 names2 (Some 3) approx_deg =
           Inr (s\<lparr> atlas := dcp_atlas lib mg, match_group := Some mg' \<rparr>,
                \<lparr> selected1 = indent names1, selected2 = indent names2,
                   tab1 = None, tab2 = None, disabled = True,
                   progress1_style = Show, progress2_style = Hide,
                   message = ''Please upload Reference group before Match group.'',
                   alert_style = Show \<rparr>)"
proof -
  have s1: "s1 = s\<lparr> atlas := dcp_atlas lib mg \<rparr>"
    using assms(4) by (rule parse_files_Inr)
  have g1: "upload_group1 io lib s None names1 time = (s, Inr None)"
    by (simp add: upload_group1_def)
  have m: "upload_match io lib s c2 names2 time approx_deg =
             (s\<lparr> atlas := dcp_atlas lib mg, match_group := Some mg' \<rparr>,
              Inl (ImportError ''Please upload Reference group before Match group.''))"
    using assms(1) by (simp add: upload_match_def assms(3,4,5) s1)
  have g2: "upload_group2 io lib s (Some c2) names2 time (Some 3) approx_deg =
             (s\<lparr> atlas := dcp_atlas lib mg, match_group := Some mg' \<rparr>,
              Inl (ImportError ''Please upload Reference group before Match group.''))"
    using assms(2) by (auto simp: upload_group2_def m)
  show ?thesis by (simp add: upload_def g1 g2)
qed

theorem upload_match_without_reference_witness:
  "upload demo_codecs demo_nidmd init_session None
       (Some [''data:application/octet-stream;base64,cmVzdA==''])
       default_sampling_time None (Some [''rest.mat'']) (Some 3) (Some 5)
     = Inr (init_session\<lparr> atlas := Some 3,
                match_group := Some [Some [[1, 2], [3, 4], [5, 6]]] \<rparr>,
            \<lparr> selected1 = None, selected2 = Some ''rest.mat'',
               tab1 = None, tab2 = None, disabled = True,
               progress1_style = Show, progress2_style = Hide,
               message = ''Please upload Reference group before Match group.'',
               alert_style = Show \<rparr>)"
  using upload_match_without_reference [where io = demo_codecs and lib = demo_nidmd
      and s = init_session and time = default_sampling_time
      and t = "6485183463413514 * 2 powi (- 53)"
      and ?c2.0 = "[''data:application/octet-stream;base64,cmVzdA=='']"
      and ?names2.0 = "Some [''rest.mat'']" and ?names1.0 = None and approx_deg = "Some 5"
      and ?s1.0 = "init_session\<lparr> atlas := Some 3 \<rparr>"
      and mg = "[Some [[1, 2], [3, 4], [5, 6]]]" and mg' = "[Some [[1, 2], [3, 4], [5, 6]]]"]
  by (simp add: py_float_default demo_parse_files_rest demo_nidmd_simps indent_def
      init_session_def)

section \<open>Comparison and match result in the reachable sessions\<close>

lemma upload_group1_frame:
  "dcp2 (fst (upload_group1 io lib s c1 n1 time)) = dcp2 s
   \<and> match_df (fst (upload_group1 io lib s c1 n1 time)) = match_df s
   \<and> match_group (fst (upload_group1 io lib s c1 n1 time)) = match_group s"
  by (auto simp: upload_group1_def Let_def dest!: parse_files_Inr
      split: option.splits sum.splits prod.splits)

lemma upload_comparison_frame:
  "match_df (fst (upload_comparison io lib s c2 n2 time)) = match_df s
   \<and> dcp1 (fst (upload_comparison io lib s c2 n2 time)) = dcp1 s"
  by (auto simp: upload_comparison_def Let_def dest!: parse_files_Inr
      split: option.splits sum.splits prod.splits)

lemma upload_match_frame:
  "dcp2 (fst (upload_match io lib s c2 n2 time deg)) = dcp2 s
   \<and> dcp1 (fst (upload_match io lib s c2 n2 time deg)) = dcp1 s"
  by (auto simp: upload_match_def Let_def dest!: parse_files_Inr
      split: option.splits sum.splits prod.splits)

lemma upload_group2_frame:
  "(contents2 = None \<or> setting \<noteq> Some 2 \<longrightarrow>
        dcp2 (fst (upload_group2 io lib s contents2 n2 time setting deg)) = dcp2 s)
   \<and> (contents2 = None \<or> setting \<noteq> Some 3 \<longrightarrow>
        match_df (fst (upload_group2 io lib s contents2 n2 time setting deg)) = match_df s)"
  by (auto simp: upload_group2_def upload_comparison_frame upload_match_frame
      split: option.splits)

lemma upload_frame:
  assumes "upload io lib s c1 c2 time n1 n2 setting deg = Inr (s', out)"
  shows "(c2 = None \<or> setting \<noteq> Some 2 \<longrightarrow> dcp2 s' = dcp2 s)
       \<and> (c2 = None \<or> setting \<noteq> Some 3 \<longrightarrow> match_df s' = match_df s)"
proof -
  define g1 where "g1 = upload_group1 io lib s c1 n1 time"
  define g2 where "g2 = upload_group2 io lib (fst g1) c2 n2 time setting deg"
  have s': "s' = fst g1 \<or> s' = fst g2"
    using assms
    by (auto simp: upload_def Let_def g1_def g2_def split: if_splits prod.splits sum.splits)
  have f1: "dcp2 (fst g1) = dcp2 s" "match_df (fst g1) = match_df s"
    using upload_group1_frame [of io lib s c1 n1 time] by (simp_all add: g1_def)
  have f2: "c2 = None \<or> setting \<noteq> Some 2 \<longrightarrow> dcp2 (fst g2) = dcp2 (fst g1)"
    "c2 = None \<or> setting \<noteq> Some 3 \<longrightarrow> match_df (fst g2) = match_df (fst g1)"
    using upload_group2_frame [of c2 setting io lib "fst g1" n2 time deg]
    by (simp_all add: g2_def)
  show ?thesis using s' f1 f2 by auto
qed

lemma step_exclusive:
  assumes "exclusive c m s" and "\<not> (c \<and> m)" and "modes_apart c m (ev # evs)"
  shows "\<exists>c' m'. exclusive c' m' (step io lib s ev) \<and> \<not> (c' \<and> m')
           \<and> modes_apart c' m' evs"
proof (cases ev)
  case (InputSetting v)
  then show ?thesis using assms by auto
next
  case (Validate n setting)
  then have "dcp2 (step io lib s ev) = dcp2 s" "match_df (step io lib s ev) = match_df s"
    by (auto simp: validate_def split: if_splits prod.splits)
  then have "exclusive c m (step io lib s ev)"
    using assms(1) by (simp add: exclusive_def)
  then show ?thesis using assms(2,3) Validate by auto
next
  case (Rst n)
  show ?thesis
  proof (cases n)
    case None
    then show ?thesis using assms Rst by (auto simp: rst_def)
  next
    case (Some k)
    then have "exclusive False False (step io lib s ev)"
      using Rst by (simp add: rst_def exclusive_def)
    then show ?thesis using assms(3) Rst Some by auto
  qed
next
  case (Upload c1 c2 t n1 n2 setting deg)
  define c' where "c' = (c \<or> (c2 \<noteq> None \<and> setting = Some 2))"
  define m' where "m' = (m \<or> (c2 \<noteq> None \<and> setting = Some 3))"
  have sm: "modes_apart c' m' evs" and ap: "\<not> (c' \<and> m')"
    using assms(3) Upload by (auto simp: c'_def m'_def Let_def)
  have fr: "(c2 = None \<or> setting \<noteq> Some 2 \<longrightarrow> dcp2 (step io lib s ev) = dcp2 s)
          \<and> (c2 = None \<or> setting \<noteq> Some 3 \<longrightarrow> match_df (step io lib s ev) = match_df s)"
    using Upload upload_frame [of io lib s c1 c2 t n1 n2 setting deg]
    by (auto split: sum.splits)
  have "exclusive c' m' (step io lib s ev)"
    using assms(1) fr by (auto simp: exclusive_def c'_def m'_def)
  then show ?thesis using sm ap by blast
qed

lemma run_events_exclusive:
  "exclusive c m s \<Longrightarrow> \<not> (c \<and> m) \<Longrightarrow> modes_apart c m evs \<Longrightarrow>
     dcp2 (run_events io lib s evs) = None \<or> match_df (run_events io lib s evs) = None"
proof (induction evs arbitrary: c m s)
  case Nil
  then show ?case by (auto simp: run_events_def exclusive_def)
next
  case (Cons ev evs)
  obtain c' m' where "exclusive c' m' (step io lib s ev)" and "\<not> (c' \<and> m')"
    and "modes_apart c' m' evs"
    using step_exclusive [OF Cons.prems] by blast
  then have "dcp2 (run_events io lib (step io lib s ev) evs) = None
           \<or> match_df (run_events io lib (step io lib s ev) evs) = None"
    by (rule Cons.IH)
  then show ?case by (simp add: run_events_def)
qed

text \<open>
  C3, as stated, fails: no callback clears the session when the setting changes. After an
  upload of two groups in Comparison, the setting is changed to Mode Matching and the
  upload callback runs again on the same files; the session then holds both the comparison
  decomposition and the match result.
\<close>

theorem comparison_then_match_counterexample:
  "\<not> (dcp2 (run_events demo_codecs demo_nidmd init_session
            [Upload (Some [''data:application/octet-stream;base64,dHdv''])
               (Some [''data:application/octet-stream;base64,cmVzdA==''])
               default_sampling_time (Some [''scan.mat'']) (Some [''rest.mat''])
               (Some 2) (Some 5),
             InputSetting (Some 3),
             Upload (Some [''data:application/octet-stream;base64,dHdv''])
               (Some [''data:application/octet-stream;base64,cmVzdA==''])
               default_sampling_time (Some [''scan.mat'']) (Some [''rest.mat''])
               (Some 3) (Some 5)]) = None
      \<or> match_df (run_events demo_codecs demo_nidmd init_session
            [Upload (Some [''data:application/octet-stream;base64,dHdv''])
               (Some [''data:application/octet-stream;base64,cmVzdA==''])
               default_sampling_time (Some [''scan.mat'']) (Some [''rest.mat''])
               (Some 2) (Some 5),
             InputSetting (Some 3),
             Upload (Some [''data:application/octet-stream;base64,dHdv''])
               (Some [''data:application/octet-stream;base64,cmVzdA==''])
               default_sampling_time (Some [''scan.mat'']) (Some [''rest.mat''])
               (Some 3) (Some 5)]) = None)"
  by (simp add: run_events_def demo_upload_comparison demo_upload_match_after_comparison)

text \<open>
  C3, amended. At most one of the comparison decomposition and the match result is set in
  every session reached from the initial one by mode selections, uploads, run requests and
  resets in which an upload of a second group in Comparison and an upload of a second
  group in Mode Matching never run without a reset that took effect between them
  (\<open>modes_apart\<close>). Uploads in Analysis, uploads of the first group alone and the upload
  call of the page load may come anywhere.
\<close>

theorem comparison_match_exclusive:
  assumes "modes_apart False False evs"
  shows "dcp2 (run_events io lib init_session evs) = None
       \<or> match_df (run_events io lib init_session evs) = None"
  by (rule run_events_exclusive [where c = False and m = False])
     (simp_all add: exclusive_def init_session_def assms)

theorem comparison_match_exclusive_witness:
  "dcp2 (run_events demo_codecs demo_nidmd init_session
            [Upload None None default_sampling_time None None None (Some 5),
             InputSetting (Some 1),
             Upload (Some [''data:application/octet-stream;base64,dHdv'']) None
               default_sampling_time (Some [''scan.mat'']) None (Some 1) (Some 5),
             InputSetting (Some 2),
             Upload (Some [''data:application/octet-stream;base64,dHdv''])
               (Some [''data:application/octet-stream;base64,cmVzdA==''])
               default_sampling_time (Some [''scan.mat'']) (Some [''rest.mat''])
               (Some 2) (Some 5),
             Rst (Some 1),
             InputSetting (Some 3),
             Upload (Some [''data:application/octet-stream;base64,dHdv''])
               (Some [''data:application/octet-stream;base64,cmVzdA==''])
               default_sampling_time (Some [''scan.mat'']) (Some [''rest.mat''])
               (Some 3) (Some 5)]) = None"
  using comparison_match_exclusive [where io = demo_codecs and lib = demo_nidmd and evs =
            "[Upload None None default_sampling_time None None None (Some 5),
             InputSetting (Some 1),
             Upload (Some [''data:application/octet-stream;base64,dHdv'']) None
               default_sampling_time (Some [''scan.mat'']) None (Some 1) (Some 5),
             InputSetting (Some 2),
             Upload (Some [''data:application/octet-stream;base64,dHdv''])
               (Some [''data:application/octet-stream;base64,cmVzdA==''])
               default_sampling_time (Some [''scan.mat'']) (Some [''rest.mat''])
               (Some 2) (Some 5),
             Rst (Some 1),
             InputSetting (Some 3),
             Upload (Some [''data:application/octet-stream;base64,dHdv''])
               (Some [''data:application/octet-stream;base64,cmVzdA==''])
               default_sampling_time (Some [''scan.mat'']) (Some [''rest.mat''])
               (Some 3) (Some 5)]"]
  by (simp add: run_events_def demo_upload_comparison rst_def init_session_def
      upload_def upload_group1_def upload_group2_def upload_match_def
      py_float_default demo_parse_files_scan demo_parse_files_rest indent_def
      demo_nidmd_simps modes_of_fraction_5_3)

end
